theory Spec2Isabelle
  imports Main "HOL-Library.AList"
begin

text \<open>
  A model of the two programs of the repository: the scraper (\<^verbatim>\<open>src/scraper\<close>), which
  copies package metadata from the DevOps feed and registry into Mongo, and the proxy
  (\<^verbatim>\<open>src/proxy\<close>), which serves the stored packages in the registry's format. Each
  Python function is a HOL function of the same name; an exception is the left value of
  a sum; the requests made and the collection written are a state that is passed along.
  Log messages are left out, and with them the arguments that only feed them.
\<close>

section \<open>Values\<close>

text \<open>
  The scraper and the proxy are untyped Python over decoded JSON. A decoded JSON value
  (what \<^verbatim>\<open>response.json()\<close> returns, and what a Mongo document holds) is a \<open>json\<close>:
  \<open>JNull\<close> is Python's \<^verbatim>\<open>None\<close>, a \<open>JObj\<close> is a \<^verbatim>\<open>dict\<close> with string keys in
  insertion order, a \<open>JArr\<close> is a \<^verbatim>\<open>list\<close>. Numbers are integers.
\<close>

datatype json =
    JNull
  | JBool bool
  | JNum int
  | JStr string
  | JArr "json list"
  | JObj "(string \<times> json) list"

text \<open>
  The exceptions of the modelled code. Only \<open>WrongTypeError\<close> has a handler; any
  other one ends the function that raised it and every caller.
\<close>

datatype exn =
    AttributeError
  | TypeError
  | IndexError
  | KeyError
  | JSONDecodeError
  | RequestException
  | WrongTypeError
  | MissingValueError
  | InvalidDocument
  | OverflowError

text \<open>
  Statements in sequence: the second runs on the value of the first, unless the first
  raised.
\<close>

definition and_then :: "exn + 'a \<Rightarrow> ('a \<Rightarrow> exn + 'b) \<Rightarrow> exn + 'b" where
  "and_then m f = (case m of Inl e \<Rightarrow> Inl e | Inr x \<Rightarrow> f x)"

text \<open>\<^verbatim>\<open>x.get(k)\<close>: a dict answers with the value or \<^verbatim>\<open>None\<close>; nothing else has \<^verbatim>\<open>get\<close>.\<close>

fun py_get :: "json \<Rightarrow> string \<Rightarrow> exn + json" where
  "py_get (JObj kvs) k = Inr (case map_of kvs k of None \<Rightarrow> JNull | Some v \<Rightarrow> v)"
| "py_get _ k = Inl AttributeError"

text \<open>\<^verbatim>\<open>x[0]\<close>.\<close>

fun py_first :: "json \<Rightarrow> exn + json" where
  "py_first (JArr []) = Inl IndexError"
| "py_first (JArr (x # xs)) = Inr x"
| "py_first (JStr []) = Inl IndexError"
| "py_first (JStr (c # cs)) = Inr (JStr [c])"
| "py_first (JObj kvs) = Inl KeyError"
| "py_first _ = Inl TypeError"

text \<open>\<^verbatim>\<open>for x in v\<close>: the elements of a list, the characters of a string, the keys of a dict.\<close>

fun py_iter :: "json \<Rightarrow> exn + json list" where
  "py_iter (JArr xs) = Inr xs"
| "py_iter (JStr s) = Inr (map (\<lambda>c. JStr [c]) s)"
| "py_iter (JObj kvs) = Inr (map (\<lambda>kv. JStr (fst kv)) kvs)"
| "py_iter _ = Inl TypeError"

text \<open>Truthiness, which decides \<^verbatim>\<open>a or b\<close>.\<close>

fun truthy :: "json \<Rightarrow> bool" where
  "truthy JNull = False"
| "truthy (JBool b) = b"
| "truthy (JNum n) = (n \<noteq> 0)"
| "truthy (JStr s) = (s \<noteq> [])"
| "truthy (JArr xs) = (xs \<noteq> [])"
| "truthy (JObj kvs) = (kvs \<noteq> [])"

definition py_or :: "json \<Rightarrow> json \<Rightarrow> json" where
  "py_or a b = (if truthy a then a else b)"

text \<open>
  A key of a Python dict built by the scraper. \<^verbatim>\<open>None\<close>, numbers and strings hash;
  \<^verbatim>\<open>True\<close> and \<^verbatim>\<open>1\<close> are the same key; a list or a dict does not hash.
\<close>

datatype key = KNone | KInt int | KStr string

fun hash_key :: "json \<Rightarrow> exn + key" where
  "hash_key JNull = Inr KNone"
| "hash_key (JBool b) = Inr (KInt (if b then 1 else 0))"
| "hash_key (JNum n) = Inr (KInt n)"
| "hash_key (JStr s) = Inr (KStr s)"
| "hash_key (JArr xs) = Inl TypeError"
| "hash_key (JObj kvs) = Inl TypeError"

text \<open>\<^verbatim>\<open>d.get(k)\<close> where \<open>d\<close> came from JSON and \<open>k\<close> is a key of a Python dict.\<close>

fun py_get_key :: "json \<Rightarrow> key \<Rightarrow> exn + json" where
  "py_get_key (JObj kvs) (KStr s) = Inr (case map_of kvs s of None \<Rightarrow> JNull | Some v \<Rightarrow> v)"
| "py_get_key (JObj kvs) _ = Inr JNull"
| "py_get_key _ k = Inl AttributeError"

section \<open>enums.py\<close>

datatype MongoPackageStatus = NOT_FOUND | OUT_OF_DATE | UP_TO_DATE

datatype NetworkError =
    TIMEOUT
  | HTTP_ERROR
  | DEVOPS_AUTH_FAILURE
  | STATUS_CLIENT_ERROR
  | STATUS_SERVER_ERROR

datatype ReturnStatus = RETURN | CONTINUE | PASS

section \<open>The upstream\<close>

text \<open>
  What \<^verbatim>\<open>requests.get\<close> does is the environment's choice: it raises, or it returns a
  response. The exception classes are those of \<^verbatim>\<open>requests.exceptions\<close> that matter to the
  handlers of \<^verbatim>\<open>get_from_devops\<close>: \<open>ConnectTimeout\<close> is both a \<open>Timeout\<close> and a
  \<open>ConnectionError\<close>, \<open>ReadTimeout\<close> is a \<open>Timeout\<close>, \<open>SSLError\<close> is a
  \<open>ConnectionError\<close>. \<open>ChunkedEncodingError\<close> (the connection broke while the body
  was read) and \<open>TooManyRedirects\<close> derive from \<^verbatim>\<open>RequestException\<close> alone, and stand
  for the classes that no handler names.
\<close>

datatype requests_exception =
    Timeout
  | ReadTimeout
  | ConnectTimeout
  | HTTPError
  | ConnectionError
  | SSLError
  | ChunkedEncodingError
  | TooManyRedirects

fun isinstance_Timeout :: "requests_exception \<Rightarrow> bool" where
  "isinstance_Timeout Timeout = True"
| "isinstance_Timeout ReadTimeout = True"
| "isinstance_Timeout ConnectTimeout = True"
| "isinstance_Timeout _ = False"

fun isinstance_HTTPError :: "requests_exception \<Rightarrow> bool" where
  "isinstance_HTTPError HTTPError = True"
| "isinstance_HTTPError _ = False"

fun isinstance_ConnectionError :: "requests_exception \<Rightarrow> bool" where
  "isinstance_ConnectionError ConnectionError = True"
| "isinstance_ConnectionError SSLError = True"
| "isinstance_ConnectionError ConnectTimeout = True"
| "isinstance_ConnectionError _ = False"

text \<open>A response: its status code and its body, \<open>None\<close> when the body is not JSON.\<close>

record response =
  status_code :: int
  body :: "json option"

datatype requests_result = Raises requests_exception | Returns response

text \<open>\<^verbatim>\<open>response.json()\<close>.\<close>

definition json_of :: "response \<Rightarrow> exn + json" where
  "json_of r = (case body r of None \<Rightarrow> Inl JSONDecodeError | Some j \<Rightarrow> Inr j)"

text \<open>
  The URL of a request. The registry URL is the f-string
  \<^verbatim>\<open>f"{env_vars.npm_registry_base_url}/{package_name}"\<close>, kept as its two parts; every other
  URL is a value passed on as it was read.
\<close>

datatype url = Url json | RegistryUrl string json

text \<open>
  The upstream answers the \<open>n\<close>-th request of the run, for a URL. The world of a run is
  the requests made so far, in order, and the Mongo collection \<^verbatim>\<open>packages\<close>.
\<close>

type_synonym upstream = "nat \<Rightarrow> url \<Rightarrow> requests_result"

type_synonym document = "(string \<times> json) list"

record world =
  requests :: "url list"
  packages :: "document list"

record EnvironmentalVariables =
  fallback_author :: string
  npm_registry_base_url :: string
  packages_url :: string

text \<open>A value \<^verbatim>\<open>T | NetworkError\<close>.\<close>

datatype 'a fetched = NetErr NetworkError | Got 'a

section \<open>devops\_scraping.py: get\_from\_devops\<close>

definition get_from_devops :: "upstream \<Rightarrow> url \<Rightarrow> world \<Rightarrow> (exn + response fetched) \<times> world" where
  "get_from_devops up u w =
     (let w' = w\<lparr>requests := requests w @ [u]\<rparr> in
      case up (length (requests w)) u of
        Raises e \<Rightarrow>
          if isinstance_Timeout e then (Inr (NetErr TIMEOUT), w')
          else if isinstance_HTTPError e then (Inr (NetErr HTTP_ERROR), w')
          else if isinstance_ConnectionError e then (Inr (NetErr HTTP_ERROR), w')
          else (Inl RequestException, w')
      | Returns r \<Rightarrow>
          if status_code r = 203 then (Inr (NetErr DEVOPS_AUTH_FAILURE), w')
          else if 400 \<le> status_code r \<and> status_code r < 500
            then (Inr (NetErr STATUS_CLIENT_ERROR), w')
          else if 500 \<le> status_code r \<and> status_code r < 600
            then (Inr (NetErr STATUS_SERVER_ERROR), w')
          else (Inr (Got r), w'))"

section \<open>npm\_classes.py\<close>

text \<open>
  The two dataclasses. Python does not enforce the annotations of a dataclass, so the
  types of the fields are parameters: the scraper fills the fields with whatever the
  upstream JSON held (\<open>raw\<close>), and \<^verbatim>\<open>dacite.from_dict\<close> returns an instance only when
  every field has passed the check against its annotation (\<open>checked\<close>). \<open>'s\<close> is the
  type of the fields annotated \<^verbatim>\<open>str\<close>, \<open>'d\<close> of \<^verbatim>\<open>dict[str, str]\<close>, \<open>'o\<close> of
  \<^verbatim>\<open>str = None\<close> and \<open>'b\<close> of \<^verbatim>\<open>bool = True\<close>.
\<close>

record ('s, 'd, 'o, 'b) NpmPackageVersion =
  version_number :: 's
  description :: 's
  publish_date :: 's
  dependencies :: 'd
  shasum :: 'o
  tarball :: 'o
  author :: 'o
  display_name :: 'o
  unity :: 'o
  category :: 'o
  hide_in_editor :: 'b

record ('s, 'v) NpmPackage =
  name :: 's
  latest_version :: 's
  versions :: 'v

type_synonym raw_version = "(json, (key \<times> json) list, json, json) NpmPackageVersion"
type_synonym raw_versions = "(key \<times> raw_version) list"
type_synonym raw_package = "(json, raw_versions) NpmPackage"

type_synonym checked_version =
  "(string, (string \<times> string) list, string option, bool) NpmPackageVersion"
type_synonym checked_versions = "(string \<times> checked_version) list"
type_synonym checked_package = "(string, checked_versions) NpmPackage"

section \<open>devops\_scraping.py: the feed\<close>

text \<open>The inner loop of \<^verbatim>\<open>get_npm_versions_from_devops_feed\<close>, over the dependencies.\<close>

fun feed_dependencies :: "json list \<Rightarrow> (key \<times> json) list \<Rightarrow> exn + (key \<times> json) list" where
  "feed_dependencies [] deps = Inr deps"
| "feed_dependencies (dep # rest) deps =
     (case py_get dep ''packageName'' of Inl e \<Rightarrow> Inl e | Inr package_name \<Rightarrow>
      case py_get dep ''versionRange'' of Inl e \<Rightarrow> Inl e | Inr version_range \<Rightarrow>
      case hash_key package_name of Inl e \<Rightarrow> Inl e | Inr k \<Rightarrow>
        feed_dependencies rest (AList.update k version_range deps))"

text \<open>
  The body of the outer loop: one feed entry becomes one \<^verbatim>\<open>NpmPackageVersion\<close>, the
  fields that the feed does not give keeping the defaults of the dataclass.
\<close>

definition feed_version :: "json \<Rightarrow> exn + raw_version" where
  "feed_version devops_version =
     and_then (py_get devops_version ''version'') (\<lambda>ver.
     and_then (py_get devops_version ''description'') (\<lambda>descr.
     and_then (py_get devops_version ''publishDate'') (\<lambda>pub.
     and_then (py_get devops_version ''dependencies'') (\<lambda>deps_json.
     and_then (py_iter deps_json) (\<lambda>deps_list.
     and_then (feed_dependencies deps_list []) (\<lambda>deps.
       Inr \<lparr>version_number = ver,
            description = py_or descr (JStr []),
            publish_date = pub,
            dependencies = deps,
            shasum = JNull, tarball = JNull, author = JNull, display_name = JNull,
            unity = JNull, category = JNull,
            hide_in_editor = JBool True\<rparr>))))))"

fun feed_versions :: "json list \<Rightarrow> raw_versions \<Rightarrow> exn + raw_versions" where
  "feed_versions [] processed_versions = Inr processed_versions"
| "feed_versions (devops_version # rest) processed_versions =
     (case feed_version devops_version of Inl e \<Rightarrow> Inl e | Inr new_version \<Rightarrow>
      case hash_key (version_number new_version) of Inl e \<Rightarrow> Inl e | Inr k \<Rightarrow>
        feed_versions rest (AList.update k new_version processed_versions))"

definition get_npm_versions_from_devops_feed ::
  "upstream \<Rightarrow> json \<Rightarrow> world \<Rightarrow> (exn + raw_versions fetched) \<times> world" where
  "get_npm_versions_from_devops_feed up package_version_url w =
     (case get_from_devops up (Url package_version_url) w of
        (Inl e, w') \<Rightarrow> (Inl e, w')
      | (Inr (NetErr n), w') \<Rightarrow> (Inr (NetErr n), w')
      | (Inr (Got devops_feed_response), w') \<Rightarrow>
          (and_then (json_of devops_feed_response) (\<lambda>j.
           and_then (py_get j ''value'') (\<lambda>v.
           and_then (py_iter v) (\<lambda>devops_versions.
           and_then (feed_versions devops_versions []) (\<lambda>processed_versions.
             Inr (Got processed_versions))))), w'))"

section \<open>devops\_scraping.py: the registry\<close>

text \<open>
  The body of the loop of \<^verbatim>\<open>get_extra_npm_info_from_devops_npm_registry\<close> for a version
  whose registry entry \<open>json_version\<close> is not \<^verbatim>\<open>None\<close>. The Python assigns the fields of
  the version object in place; the model returns the updated version.
\<close>

definition enrich_version ::
  "EnvironmentalVariables \<Rightarrow> json \<Rightarrow> json \<Rightarrow> raw_version \<Rightarrow> exn + raw_version" where
  "enrich_version env_vars package_name json_version npm_pkg_version =
     and_then (py_get json_version ''dist'') (\<lambda>dist.
     and_then (py_get dist ''shasum'') (\<lambda>sh.
     and_then (py_get dist ''tarball'') (\<lambda>tb.
     and_then (py_get json_version ''author'') (\<lambda>auth.
     and_then (if auth \<noteq> JNull then py_get auth ''name''
               else Inr (JStr (fallback_author env_vars))) (\<lambda>auth_name.
     and_then (py_get json_version ''displayName'') (\<lambda>disp.
     and_then (py_get json_version ''unity'') (\<lambda>uni.
     and_then (py_get json_version ''category'') (\<lambda>cat.
     and_then (if cat = JNull \<and> auth \<noteq> JNull then py_get auth ''name''
               else Inr cat) (\<lambda>cat'.
     and_then (py_get json_version ''hideInEditor'') (\<lambda>hide.
       Inr (npm_pkg_version
             \<lparr>shasum := sh,
              tarball := tb,
              author := auth_name,
              display_name := py_or disp package_name,
              unity := py_or uni (JStr ''Unknown Unity Version''),
              category := py_or cat' (JStr ''Unknown''),
              hide_in_editor := py_or hide (JBool False)\<rparr>)))))))))))"

fun enrich_versions ::
  "EnvironmentalVariables \<Rightarrow> json \<Rightarrow> json \<Rightarrow> raw_versions \<Rightarrow> raw_versions \<Rightarrow> exn + raw_versions" where
  "enrich_versions env_vars package_name devops_versions [] updated_package_versions =
     Inr updated_package_versions"
| "enrich_versions env_vars package_name devops_versions ((ver_num, npm_pkg_version) # rest)
       updated_package_versions =
     (case py_get_key devops_versions ver_num of Inl e \<Rightarrow> Inl e | Inr json_version \<Rightarrow>
      if json_version = JNull
      then enrich_versions env_vars package_name devops_versions rest updated_package_versions
      else
        case enrich_version env_vars package_name json_version npm_pkg_version of
          Inl e \<Rightarrow> Inl e
        | Inr v \<Rightarrow>
            enrich_versions env_vars package_name devops_versions rest
              (AList.update ver_num v updated_package_versions))"

definition get_extra_npm_info_from_devops_npm_registry ::
  "upstream \<Rightarrow> EnvironmentalVariables \<Rightarrow> json \<Rightarrow> raw_versions \<Rightarrow> world
     \<Rightarrow> (exn + raw_versions fetched) \<times> world" where
  "get_extra_npm_info_from_devops_npm_registry up env_vars package_name package_versions w =
     (case get_from_devops up (RegistryUrl (npm_registry_base_url env_vars) package_name) w of
        (Inl e, w') \<Rightarrow> (Inl e, w')
      | (Inr (NetErr n), w') \<Rightarrow> (Inr (NetErr n), w')
      | (Inr (Got devops_registry_response), w') \<Rightarrow>
          (and_then (json_of devops_registry_response) (\<lambda>j.
           and_then (py_get j ''versions'') (\<lambda>devops_versions.
           and_then (enrich_versions env_vars package_name devops_versions package_versions [])
             (\<lambda>updated_package_versions. Inr (Got updated_package_versions)))), w'))"

section \<open>devops\_scraping.py: validate\_package\_versions\<close>

text \<open>
  The counter is an \<^verbatim>\<open>int\<close> argument: \<^verbatim>\<open>non_serious_error_count += 1\<close> rebinds the
  parameter inside the function, and the function returns the \<^verbatim>\<open>ReturnStatus\<close> alone.
  The package name, the download location and the error message go to the log only.
\<close>

definition validate_package_versions :: "raw_versions fetched \<Rightarrow> int \<Rightarrow> ReturnStatus" where
  "validate_package_versions package_versions non_serious_error_count =
     (case package_versions of
        NetErr DEVOPS_AUTH_FAILURE \<Rightarrow> RETURN
      | NetErr _ \<Rightarrow>
          (let non_serious_error_count = non_serious_error_count + 1 in
           if non_serious_error_count = 5 then RETURN else CONTINUE)
      | Got vs \<Rightarrow> if length vs = 0 then CONTINUE else PASS)"

section \<open>dacite.from\_dict\<close>

text \<open>
  \<^verbatim>\<open>dacite.from_dict(data_class=NpmPackage, data=mongo_package)\<close>, for the two dataclasses
  of \<^verbatim>\<open>npm_classes.py\<close>. The library visits the fields in the order of their declaration.
  A field that the document has is checked against its annotation and a mismatch raises
  \<^verbatim>\<open>WrongTypeError\<close>; a field that the document lacks takes the default of the dataclass,
  and raises \<^verbatim>\<open>MissingValueError\<close> when the dataclass gives none. Keys of the document
  that are no field are ignored.
\<close>

definition str_field :: "document \<Rightarrow> string \<Rightarrow> exn + string" where
  "str_field data f =
     (case map_of data f of
        None \<Rightarrow> Inl MissingValueError
      | Some (JStr s) \<Rightarrow> Inr s
      | Some _ \<Rightarrow> Inl WrongTypeError)"

definition str_field_default_None :: "document \<Rightarrow> string \<Rightarrow> exn + string option" where
  "str_field_default_None data f =
     (case map_of data f of
        None \<Rightarrow> Inr None
      | Some (JStr s) \<Rightarrow> Inr (Some s)
      | Some _ \<Rightarrow> Inl WrongTypeError)"

definition bool_field_default_True :: "document \<Rightarrow> string \<Rightarrow> exn + bool" where
  "bool_field_default_True data f =
     (case map_of data f of
        None \<Rightarrow> Inr True
      | Some (JBool b) \<Rightarrow> Inr b
      | Some _ \<Rightarrow> Inl WrongTypeError)"

fun str_values :: "(string \<times> json) list \<Rightarrow> (string \<times> string) list option" where
  "str_values [] = Some []"
| "str_values ((k, JStr s) # rest) = map_option (\<lambda>r. (k, s) # r) (str_values rest)"
| "str_values ((k, _) # rest) = None"

definition dict_str_str_field :: "document \<Rightarrow> string \<Rightarrow> exn + (string \<times> string) list" where
  "dict_str_str_field data f =
     (case map_of data f of
        None \<Rightarrow> Inl MissingValueError
      | Some (JObj d) \<Rightarrow>
          (case str_values d of None \<Rightarrow> Inl WrongTypeError | Some deps \<Rightarrow> Inr deps)
      | Some _ \<Rightarrow> Inl WrongTypeError)"

definition from_dict_NpmPackageVersion :: "document \<Rightarrow> exn + checked_version" where
  "from_dict_NpmPackageVersion data =
     and_then (str_field data ''version_number'') (\<lambda>f1.
     and_then (str_field data ''description'') (\<lambda>f2.
     and_then (str_field data ''publish_date'') (\<lambda>f3.
     and_then (dict_str_str_field data ''dependencies'') (\<lambda>f4.
     and_then (str_field_default_None data ''shasum'') (\<lambda>f5.
     and_then (str_field_default_None data ''tarball'') (\<lambda>f6.
     and_then (str_field_default_None data ''author'') (\<lambda>f7.
     and_then (str_field_default_None data ''display_name'') (\<lambda>f8.
     and_then (str_field_default_None data ''unity'') (\<lambda>f9.
     and_then (str_field_default_None data ''category'') (\<lambda>f10.
     and_then (bool_field_default_True data ''hide_in_editor'') (\<lambda>f11.
       Inr \<lparr>version_number = f1, description = f2, publish_date = f3, dependencies = f4,
            shasum = f5, tarball = f6, author = f7, display_name = f8, unity = f9,
            category = f10, hide_in_editor = f11\<rparr>)))))))))))"

text \<open>
  The field \<^verbatim>\<open>versions: dict[str, NpmPackageVersion]\<close>. The library first builds every
  item, in order: an item that is a dict goes through \<^verbatim>\<open>from_dict\<close> (which may raise),
  any other item is kept as it is. Then it checks the built dict against the annotation,
  and an item that is no \<^verbatim>\<open>NpmPackageVersion\<close> raises \<^verbatim>\<open>WrongTypeError\<close>.
\<close>

fun build_versions :: "(string \<times> json) list \<Rightarrow> exn + (string \<times> checked_version option) list" where
  "build_versions [] = Inr []"
| "build_versions ((k, JObj d) # rest) =
     (case from_dict_NpmPackageVersion d of
        Inl e \<Rightarrow> Inl e
      | Inr v \<Rightarrow>
          (case build_versions rest of Inl e \<Rightarrow> Inl e | Inr vs \<Rightarrow> Inr ((k, Some v) # vs)))"
| "build_versions ((k, _) # rest) =
     (case build_versions rest of Inl e \<Rightarrow> Inl e | Inr vs \<Rightarrow> Inr ((k, None) # vs))"

fun all_built :: "(string \<times> checked_version option) list \<Rightarrow> checked_versions option" where
  "all_built [] = Some []"
| "all_built ((k, Some v) # rest) = map_option (\<lambda>r. (k, v) # r) (all_built rest)"
| "all_built ((k, None) # rest) = None"

definition versions_field :: "document \<Rightarrow> exn + checked_versions" where
  "versions_field data =
     (case map_of data ''versions'' of
        None \<Rightarrow> Inr []
      | Some (JObj items) \<Rightarrow>
          and_then (build_versions items) (\<lambda>built.
            case all_built built of None \<Rightarrow> Inl WrongTypeError | Some vs \<Rightarrow> Inr vs)
      | Some _ \<Rightarrow> Inl WrongTypeError)"

definition from_dict_NpmPackage :: "document \<Rightarrow> exn + checked_package" where
  "from_dict_NpmPackage data =
     and_then (str_field data ''name'') (\<lambda>f1.
     and_then (str_field data ''latest_version'') (\<lambda>f2.
     and_then (versions_field data) (\<lambda>f3.
       Inr \<lparr>name = f1, latest_version = f2, versions = f3\<rparr>)))"

section \<open>The Mongo collection\<close>

text \<open>
  A collection is the list of its documents, oldest first. The filter
  \<^verbatim>\<open>{"name": package_name}\<close> selects the documents whose field \<^verbatim>\<open>name\<close> equals the
  value or is an array that holds the value, and for the value \<^verbatim>\<open>None\<close> also the
  documents without the field (a value that is a dict of query operators is not
  modelled); \<^verbatim>\<open>find_one\<close> and \<^verbatim>\<open>delete_one\<close> take the first of them. The \<^verbatim>\<open>_id\<close> that
  Mongo adds to an inserted document is left out: no code here reads it. The database
  itself does not fail.
\<close>

definition matches_name :: "document \<Rightarrow> json \<Rightarrow> bool" where
  "matches_name d n =
     (case map_of d ''name'' of
        None \<Rightarrow> n = JNull
      | Some (JArr xs) \<Rightarrow> JArr xs = n \<or> n \<in> set xs
      | Some v \<Rightarrow> v = n)"

definition find_one :: "document list \<Rightarrow> json \<Rightarrow> document option" where
  "find_one coll n = List.find (\<lambda>d. matches_name d n) coll"

fun delete_one :: "document list \<Rightarrow> json \<Rightarrow> document list" where
  "delete_one [] n = []"
| "delete_one (d # ds) n = (if matches_name d n then ds else d # delete_one ds n)"

definition insert_one :: "document list \<Rightarrow> document \<Rightarrow> document list" where
  "insert_one coll d = coll @ [d]"

text \<open>
  \<^verbatim>\<open>dataclasses.asdict\<close> followed by the BSON encoding of \<^verbatim>\<open>insert_one\<close>. The
  dataclasses become dicts field by field. The encoder goes through the document in
  order, and raises \<^verbatim>\<open>InvalidDocument\<close> at a key that is not a string and
  \<^verbatim>\<open>OverflowError\<close> at an integer that does not fit 8 bytes.
\<close>

fun bson_encodable :: "json \<Rightarrow> bool" where
  "bson_encodable (JNum n) = (- (2 ^ 63) \<le> n \<and> n < 2 ^ 63)"
| "bson_encodable (JArr xs) = list_all bson_encodable xs"
| "bson_encodable (JObj kvs) = list_all (\<lambda>kv. bson_encodable (snd kv)) kvs"
| "bson_encodable _ = True"

definition encode :: "json \<Rightarrow> exn + json" where
  "encode v = (if bson_encodable v then Inr v else Inl OverflowError)"

fun encode_items :: "(key \<times> json) list \<Rightarrow> exn + (string \<times> json) list" where
  "encode_items [] = Inr []"
| "encode_items ((KStr s, v) # rest) =
     (case encode v of
        Inl e \<Rightarrow> Inl e
      | Inr v' \<Rightarrow>
          (case encode_items rest of Inl e \<Rightarrow> Inl e | Inr r \<Rightarrow> Inr ((s, v') # r)))"
| "encode_items ((_, v) # rest) = Inl InvalidDocument"

definition asdict_version :: "raw_version \<Rightarrow> exn + json" where
  "asdict_version v =
     and_then (encode (version_number v)) (\<lambda>f1.
     and_then (encode (description v)) (\<lambda>f2.
     and_then (encode (publish_date v)) (\<lambda>f3.
     and_then (encode_items (dependencies v)) (\<lambda>f4.
     and_then (encode (shasum v)) (\<lambda>f5.
     and_then (encode (tarball v)) (\<lambda>f6.
     and_then (encode (author v)) (\<lambda>f7.
     and_then (encode (display_name v)) (\<lambda>f8.
     and_then (encode (unity v)) (\<lambda>f9.
     and_then (encode (category v)) (\<lambda>f10.
     and_then (encode (hide_in_editor v)) (\<lambda>f11.
       Inr (JObj
         [(''version_number'', f1),
          (''description'', f2),
          (''publish_date'', f3),
          (''dependencies'', JObj f4),
          (''shasum'', f5),
          (''tarball'', f6),
          (''author'', f7),
          (''display_name'', f8),
          (''unity'', f9),
          (''category'', f10),
          (''hide_in_editor'', f11)]))))))))))))"

fun asdict_versions :: "raw_versions \<Rightarrow> exn + (string \<times> json) list" where
  "asdict_versions [] = Inr []"
| "asdict_versions ((KStr s, v) # rest) =
     (case asdict_version v of
        Inl e \<Rightarrow> Inl e
      | Inr d \<Rightarrow>
          (case asdict_versions rest of Inl e \<Rightarrow> Inl e | Inr r \<Rightarrow> Inr ((s, d) # r)))"
| "asdict_versions ((_, v) # rest) = Inl InvalidDocument"

definition asdict :: "raw_package \<Rightarrow> exn + document" where
  "asdict p =
     and_then (encode (name p)) (\<lambda>f1.
     and_then (encode (latest_version p)) (\<lambda>f2.
     and_then (asdict_versions (versions p)) (\<lambda>f3.
       Inr [(''name'', f1),
            (''latest_version'', f2),
            (''versions'', JObj f3)])))"

section \<open>mongo\_functions.py\<close>

definition check_package_status_in_mongo ::
  "json \<Rightarrow> json \<Rightarrow> document list \<Rightarrow> exn + MongoPackageStatus" where
  "check_package_status_in_mongo package_name package_latest_version packages_collection =
     (case find_one packages_collection package_name of
        None \<Rightarrow> Inr NOT_FOUND
      | Some mongo_package \<Rightarrow>
          (case from_dict_NpmPackage mongo_package of
             Inl e \<Rightarrow> if e = WrongTypeError then Inr NOT_FOUND else Inl e
           | Inr found_package \<Rightarrow>
               if JStr (latest_version found_package) = package_latest_version
               then Inr UP_TO_DATE
               else Inr OUT_OF_DATE))"

section \<open>app.py: download\<close>

text \<open>The three reads at the head of the loop body.\<close>

definition read_package_response :: "json \<Rightarrow> exn + json \<times> json \<times> json" where
  "read_package_response package_response =
     and_then (py_get package_response ''name'') (\<lambda>package_name.
     and_then (py_get package_response ''versions'') (\<lambda>vs.
     and_then (py_first vs) (\<lambda>v0.
     and_then (py_get v0 ''version'') (\<lambda>package_latest_version.
     and_then (py_get package_response ''_links'') (\<lambda>links.
     and_then (py_get links ''versions'') (\<lambda>lv.
     and_then (py_get lv ''href'') (\<lambda>package_version_url.
       Inr (package_name, package_latest_version, package_version_url))))))))"

text \<open>How one pass through the loop body ends.\<close>

datatype step = Raise exn | Return | Next

text \<open>
  The end of the loop body: the new package replaces the old one. The deletion comes
  before the insertion, and the insertion is where a document that cannot be encoded
  raises.
\<close>

definition upload_package ::
  "json \<Rightarrow> json \<Rightarrow> raw_versions \<Rightarrow> MongoPackageStatus \<Rightarrow> world \<Rightarrow> step \<times> world" where
  "upload_package package_name package_latest_version package_versions mongo_package_status w =
     (let new_package =
            \<lparr>name = package_name, latest_version = package_latest_version,
             versions = package_versions\<rparr>;
          w1 = (if mongo_package_status = OUT_OF_DATE
                then w\<lparr>packages := delete_one (packages w) package_name\<rparr>
                else w)
      in case asdict new_package of
           Inl e \<Rightarrow> (Raise e, w1)
         | Inr new_package_as_json \<Rightarrow>
             (Next, w1\<lparr>packages := insert_one (packages w1) new_package_as_json\<rparr>))"

text \<open>
  The second half of the loop body, from the registry download on. \<open>PASS\<close> is returned
  for a dict only, so the branches for a \<^verbatim>\<open>NetworkError\<close> after \<open>PASS\<close> are never taken.
\<close>

definition enrich_and_upload ::
  "upstream \<Rightarrow> EnvironmentalVariables \<Rightarrow> json \<Rightarrow> json \<Rightarrow> raw_versions fetched
     \<Rightarrow> MongoPackageStatus \<Rightarrow> int \<Rightarrow> world \<Rightarrow> step \<times> world" where
  "enrich_and_upload up env_vars package_name package_latest_version package_versions
       mongo_package_status non_serious_error_count w =
     (case package_versions of
        NetErr n \<Rightarrow> (Raise AttributeError, w)
      | Got feed \<Rightarrow>
          (case get_extra_npm_info_from_devops_npm_registry up env_vars package_name feed w of
             (Inl e, w') \<Rightarrow> (Raise e, w')
           | (Inr package_versions', w') \<Rightarrow>
               (case validate_package_versions package_versions' non_serious_error_count of
                  RETURN \<Rightarrow> (Return, w')
                | CONTINUE \<Rightarrow> (Next, w')
                | PASS \<Rightarrow>
                    (case package_versions' of
                       NetErr n \<Rightarrow> (Raise InvalidDocument, w')
                     | Got enriched \<Rightarrow>
                         upload_package package_name package_latest_version enriched
                           mongo_package_status w'))))"

text \<open>The loop body.\<close>

definition process_package ::
  "upstream \<Rightarrow> EnvironmentalVariables \<Rightarrow> json \<Rightarrow> int \<Rightarrow> world \<Rightarrow> step \<times> world" where
  "process_package up env_vars package_response non_serious_error_count w =
     (case read_package_response package_response of
        Inl e \<Rightarrow> (Raise e, w)
      | Inr (package_name, package_latest_version, package_version_url) \<Rightarrow>
          (case check_package_status_in_mongo package_name package_latest_version (packages w) of
             Inl e \<Rightarrow> (Raise e, w)
           | Inr mongo_package_status \<Rightarrow>
               if mongo_package_status = UP_TO_DATE then (Next, w)
               else
                 (case get_npm_versions_from_devops_feed up package_version_url w of
                    (Inl e, w') \<Rightarrow> (Raise e, w')
                  | (Inr package_versions, w') \<Rightarrow>
                      (case validate_package_versions package_versions non_serious_error_count of
                         RETURN \<Rightarrow> (Return, w')
                       | CONTINUE \<Rightarrow> (Next, w')
                       | PASS \<Rightarrow>
                           enrich_and_upload up env_vars package_name package_latest_version
                             package_versions mongo_package_status non_serious_error_count w'))))"

text \<open>
  How a run ends: with an exception, by the early \<^verbatim>\<open>return\<close>, or after the last package.
\<close>

datatype run = Raised exn | Returned | Finished

text \<open>
  The loop. \<^verbatim>\<open>non_serious_error_count\<close> is the variable of \<^verbatim>\<open>download\<close>; the loop body
  passes it to \<^verbatim>\<open>validate_package_versions\<close> and never assigns it.
\<close>

fun download_loop ::
  "upstream \<Rightarrow> EnvironmentalVariables \<Rightarrow> json list \<Rightarrow> int \<Rightarrow> world \<Rightarrow> run \<times> world" where
  "download_loop up env_vars [] non_serious_error_count w = (Finished, w)"
| "download_loop up env_vars (package_response # rest) non_serious_error_count w =
     (case process_package up env_vars package_response non_serious_error_count w of
        (Raise e, w') \<Rightarrow> (Raised e, w')
      | (Return, w') \<Rightarrow> (Returned, w')
      | (Next, w') \<Rightarrow> download_loop up env_vars rest non_serious_error_count w')"

text \<open>
  \<^verbatim>\<open>download\<close>. When the package list is a \<^verbatim>\<open>NetworkError\<close> the function logs and goes
  on to the next statement, \<^verbatim>\<open>devops_package_list_response.json()\<close>, and a member of
  the enum has no \<^verbatim>\<open>json\<close>.
\<close>

definition download :: "upstream \<Rightarrow> EnvironmentalVariables \<Rightarrow> world \<Rightarrow> run \<times> world" where
  "download up env_vars w =
     (case get_from_devops up (Url (JStr (packages_url env_vars))) w of
        (Inl e, w') \<Rightarrow> (Raised e, w')
      | (Inr (NetErr n), w') \<Rightarrow> (Raised AttributeError, w')
      | (Inr (Got devops_package_list_response), w') \<Rightarrow>
          (case and_then (json_of devops_package_list_response) (\<lambda>j.
                and_then (py_get j ''value'') py_iter) of
             Inl e \<Rightarrow> (Raised e, w')
           | Inr devops_package_list \<Rightarrow> download_loop up env_vars devops_package_list 0 w'))"

section \<open>server.py: package\_route\<close>

text \<open>
  What Flask gets back from a route: a response with its status and JSON body, or an
  exception that the route did not handle, which Flask answers with status 500. The
  proxy reads the collection \<^verbatim>\<open>packages_collection\<close> of its database.
\<close>

datatype flask_result = Response int json | Unhandled exn

fun status_of :: "flask_result \<Rightarrow> int" where
  "status_of (Response code b) = code"
| "status_of (Unhandled e) = 500"

definition LICENSE :: string where
  "LICENSE = ''proprietary''"

definition opt_str :: "string option \<Rightarrow> json" where
  "opt_str x = (case x of None \<Rightarrow> JNull | Some s \<Rightarrow> JStr s)"

text \<open>The sub-document of one version.\<close>

definition version_document :: "string \<Rightarrow> checked_version \<Rightarrow> json" where
  "version_document package_name version =
     JObj
       [(''_id'', JStr (package_name @ ''@'' @ version_number version)),
        (''_shasum'', opt_str (shasum version)),
        (''name'', JStr package_name),
        (''author'', opt_str (author version)),
        (''dependencies'', JObj (map (\<lambda>kv. (fst kv, JStr (snd kv))) (dependencies version))),
        (''description'', JStr (description version)),
        (''directories'', JNull),
        (''dist'', JObj [(''shasum'', opt_str (shasum version)),
                         (''tarball'', opt_str (tarball version))]),
        (''license'', JStr LICENSE),
        (''version'', JStr (version_number version)),
        (''displayName'', opt_str (display_name version)),
        (''unity'', opt_str (unity version)),
        (''category'', opt_str (category version)),
        (''hideInEditor'', JBool (hide_in_editor version))]"

text \<open>The loop over the versions, which fills \<^verbatim>\<open>version_times\<close> and \<^verbatim>\<open>all_versions\<close>.\<close>

fun version_loop ::
  "string \<Rightarrow> checked_versions \<Rightarrow> document \<times> document \<Rightarrow> document \<times> document" where
  "version_loop package_name [] (version_times, all_versions) = (version_times, all_versions)"
| "version_loop package_name ((k, version) # rest) (version_times, all_versions) =
     version_loop package_name rest
       (AList.update (version_number version) (JStr (publish_date version)) version_times,
        AList.update (version_number version) (version_document package_name version)
          all_versions)"

text \<open>
  The route. \<open>rev_token\<close> is the string that \<^verbatim>\<open>random.choices\<close> draws for \<^verbatim>\<open>_rev\<close> in this
  call.
\<close>

definition package_route :: "document list \<Rightarrow> string \<Rightarrow> string \<Rightarrow> flask_result" where
  "package_route packages_collection package_name rev_token =
     (case find_one packages_collection (JStr package_name) of
        None \<Rightarrow> Response 404 (JObj [(''error'', JStr ''Not found'')])
      | Some mongo_package \<Rightarrow>
          (case from_dict_NpmPackage mongo_package of
             Inl e \<Rightarrow>
               if e = WrongTypeError
               then Response 500 (JObj [(''err'', JStr ''Could not deserialise from database'')])
               else Unhandled e
           | Inr package \<Rightarrow>
               (case map_of (versions package) (latest_version package) of
                  None \<Rightarrow> Unhandled KeyError
                | Some latest \<Rightarrow>
                    (case version_loop package_name (versions package) ([], []) of
                       (version_times, all_versions) \<Rightarrow>
                         Response 200 (JObj
                           [(''_id'', JStr package_name),
                            (''_rev'', JStr rev_token),
                            (''name'', JStr package_name),
                            (''description'', JStr (description latest)),
                            (''license'', JStr LICENSE),
                            (''dist-tags'', JObj [(''latest'', JStr (version_number latest))]),
                            (''versions'', JObj all_versions),
                            (''time'', JObj version_times),
                            (''displayName'', opt_str (display_name latest)),
                            (''unity'', opt_str (unity latest)),
                            (''category'', opt_str (category latest)),
                            (''hideInEditor'', JBool (hide_in_editor latest)),
                            (''author'', opt_str (author latest))])))))"

section \<open>Example inputs\<close>

text \<open>Concrete upstream answers and stored documents, on which the model is run below.\<close>

definition empty_world :: world where
  "empty_world = \<lparr>requests = [], packages = []\<rparr>"

definition example_env :: EnvironmentalVariables where
  "example_env =
     \<lparr>fallback_author = ''ACME'',
      npm_registry_base_url = ''https://registry'',
      packages_url = ''https://packages''\<rparr>"

definition ok :: "json \<Rightarrow> requests_result" where
  "ok j = Returns \<lparr>status_code = 200, body = Some j\<rparr>"

definition status_only :: "int \<Rightarrow> requests_result" where
  "status_only code = Returns \<lparr>status_code = code, body = None\<rparr>"

text \<open>The upstream that gives the same answer to every request.\<close>

definition always :: "requests_result \<Rightarrow> upstream" where
  "always r n u = r"

text \<open>An entry of the package list: a package at version 1.0.0, its feed at the URL \<open>n\<close>.\<close>

definition catalog_entry :: "string \<Rightarrow> json" where
  "catalog_entry n =
     JObj [(''name'', JStr n),
           (''versions'', JArr [JObj [(''version'', JStr ''1.0.0'')]]),
           (''_links'', JObj [(''versions'', JObj [(''href'', JStr n)])])]"

definition feed_doc :: json where
  "feed_doc =
     JObj [(''value'', JArr
       [JObj [(''version'', JStr ''1.0.0''),
              (''description'', JStr ''d''),
              (''publishDate'', JStr ''2020''),
              (''dependencies'', JArr [])]])]"

definition registry_versions :: document where
  "registry_versions =
     [(''1.0.0'', JObj [(''dist'', JObj [(''shasum'', JStr ''abc''), (''tarball'', JStr ''t'')])])]"

definition registry_doc :: json where
  "registry_doc = JObj [(''versions'', JObj registry_versions)]"

text \<open>
  Six packages; the feed of each of the first five fails with a connection error, the
  sixth is served by the feed and by the registry.
\<close>

definition five_failures :: upstream where
  "five_failures n u =
     (if n = 0 then
        ok (JObj [(''value'',
                   JArr (map catalog_entry [''a'', ''b'', ''c'', ''d'', ''e'', ''f'']))])
      else if n \<le> 5 then Raises ConnectionError
      else if n = 6 then ok feed_doc
      else ok registry_doc)"

text \<open>The feed answers with the status of a rejected token.\<close>

definition feed_rejects :: upstream where
  "feed_rejects n u = status_only 203"

text \<open>The feed answers, the registry rejects the token.\<close>

definition registry_rejects :: upstream where
  "registry_rejects n u = (if n = 0 then ok feed_doc else status_only 203)"

text \<open>
  Two versions as the feed gives them, and a registry in which the entry of the first is
  \<^verbatim>\<open>null\<close>.
\<close>

definition example_feed_versions :: raw_versions where
  "example_feed_versions =
     [(KStr ''1.0.0'',
       \<lparr>version_number = JStr ''1.0.0'', description = JStr ''d'', publish_date = JStr ''2020'',
        dependencies = [], shasum = JNull, tarball = JNull, author = JNull,
        display_name = JNull, unity = JNull, category = JNull, hide_in_editor = JBool True\<rparr>),
      (KStr ''2.0.0'',
       \<lparr>version_number = JStr ''2.0.0'', description = JStr ''e'', publish_date = JStr ''2021'',
        dependencies = [], shasum = JNull, tarball = JNull, author = JNull,
        display_name = JNull, unity = JNull, category = JNull, hide_in_editor = JBool True\<rparr>)]"

text \<open>A registry entry with an author and without a category.\<close>

definition authored_registry_versions :: document where
  "authored_registry_versions =
     [(''1.0.0'', JObj [(''dist'', JObj [(''shasum'', JStr ''abc''), (''tarball'', JStr ''t'')]),
                        (''author'', JObj [(''name'', JStr ''Ann'')]),
                        (''displayName'', JStr ''Foo''),
                        (''unity'', JStr ''2021.3''),
                        (''hideInEditor'', JBool True)])]"

definition null_registry_versions :: document where
  "null_registry_versions = [(''1.0.0'', JNull)]"

text \<open>
  Stored documents of the package \<^verbatim>\<open>foo\<close>: as a run stores it, with the \<^verbatim>\<open>shasum\<close>
  of its version given; without its \<^verbatim>\<open>latest_version\<close>; with a \<^verbatim>\<open>latest_version\<close>
  that its \<^verbatim>\<open>versions\<close> does not have; and a version document from before the field
  \<^verbatim>\<open>hide_in_editor\<close>.
\<close>

definition stored_version :: "json \<Rightarrow> document" where
  "stored_version sh =
     [(''version_number'', JStr ''1.0.0''),
      (''description'', JStr ''d''),
      (''publish_date'', JStr ''2020''),
      (''dependencies'', JObj [(''bar'', JStr ''^1.0.0'')]),
      (''shasum'', sh),
      (''tarball'', JStr ''t''),
      (''author'', JStr ''ACME''),
      (''display_name'', JStr ''Foo''),
      (''unity'', JStr ''2021.3''),
      (''category'', JStr ''Tools''),
      (''hide_in_editor'', JBool False)]"

definition stored_foo :: "json \<Rightarrow> document" where
  "stored_foo sh =
     [(''name'', JStr ''foo''),
      (''latest_version'', JStr ''1.0.0''),
      (''versions'', JObj [(''1.0.0'', JObj (stored_version sh))])]"

definition foo_without_latest_version :: document where
  "foo_without_latest_version = [(''name'', JStr ''foo'')]"

definition dangling_foo :: document where
  "dangling_foo =
     [(''name'', JStr ''foo''),
      (''latest_version'', JStr ''2.0.0''),
      (''versions'', JObj [(''1.0.0'', JObj (stored_version (JStr ''abc'')))])]"

definition version_without_hide_in_editor :: document where
  "version_without_hide_in_editor =
     [(''version_number'', JStr ''1.0.0''),
      (''description'', JStr ''d''),
      (''publish_date'', JStr ''2020''),
      (''dependencies'', JObj [])]"

text \<open>
  The upstream of one package: the feed answers the first request, and the registry,
  with the given \<^verbatim>\<open>versions\<close>, every later one.
\<close>

definition serves :: "document \<Rightarrow> upstream" where
  "serves reg n u = (if n = 0 then ok feed_doc else ok (JObj [(''versions'', JObj reg)]))"

section \<open>The upstream client\<close>

text \<open>
  What the handlers cover. One call of \<^verbatim>\<open>get_from_devops\<close> makes one request and
  classifies what came back, in this order: an exception that is a \<^verbatim>\<open>Timeout\<close> gives \<open>TIMEOUT\<close>; otherwise an
  \<^verbatim>\<open>HTTPError\<close> or a \<^verbatim>\<open>ConnectionError\<close> gives \<open>HTTP_ERROR\<close>; a response with status 203
  gives \<open>DEVOPS_AUTH_FAILURE\<close>, with a status from 400 to 499 \<open>STATUS_CLIENT_ERROR\<close>, with
  a status from 500 to 599 \<open>STATUS_SERVER_ERROR\<close>; a response with any other status is
  returned as it is. The request log grows by this one request in every case, so nothing
  is retried.
\<close>

lemma get_from_devops_classification:
  "(up (length (requests w)) u = Raises e \<and> isinstance_Timeout e
      \<longrightarrow> fst (get_from_devops up u w) = Inr (NetErr TIMEOUT)) \<and>
   (up (length (requests w)) u = Raises e \<and> \<not> isinstance_Timeout e
      \<and> (isinstance_HTTPError e \<or> isinstance_ConnectionError e)
      \<longrightarrow> fst (get_from_devops up u w) = Inr (NetErr HTTP_ERROR)) \<and>
   (up (length (requests w)) u = Returns r \<and> status_code r = 203
      \<longrightarrow> fst (get_from_devops up u w) = Inr (NetErr DEVOPS_AUTH_FAILURE)) \<and>
   (up (length (requests w)) u = Returns r \<and> 400 \<le> status_code r \<and> status_code r \<le> 499
      \<longrightarrow> fst (get_from_devops up u w) = Inr (NetErr STATUS_CLIENT_ERROR)) \<and>
   (up (length (requests w)) u = Returns r \<and> 500 \<le> status_code r \<and> status_code r \<le> 599
      \<longrightarrow> fst (get_from_devops up u w) = Inr (NetErr STATUS_SERVER_ERROR)) \<and>
   (up (length (requests w)) u = Returns r \<and> status_code r \<noteq> 203
      \<and> \<not> (400 \<le> status_code r \<and> status_code r \<le> 599)
      \<longrightarrow> fst (get_from_devops up u w) = Inr (Got r)) \<and>
   snd (get_from_devops up u w) = w\<lparr>requests := requests w @ [u]\<rparr>"
  by (auto simp: get_from_devops_def Let_def split: requests_result.splits)

lemma get_from_devops_classification_examples:
  "fst (get_from_devops (always (Raises ReadTimeout)) (Url JNull) empty_world)
     = Inr (NetErr TIMEOUT) \<and>
   fst (get_from_devops (always (Raises SSLError)) (Url JNull) empty_world)
     = Inr (NetErr HTTP_ERROR) \<and>
   fst (get_from_devops (always (status_only 203)) (Url JNull) empty_world)
     = Inr (NetErr DEVOPS_AUTH_FAILURE) \<and>
   fst (get_from_devops (always (status_only 404)) (Url JNull) empty_world)
     = Inr (NetErr STATUS_CLIENT_ERROR) \<and>
   fst (get_from_devops (always (status_only 503)) (Url JNull) empty_world)
     = Inr (NetErr STATUS_SERVER_ERROR) \<and>
   fst (get_from_devops (always (status_only 200)) (Url JNull) empty_world)
     = Inr (Got \<lparr>status_code = 200, body = None\<rparr>) \<and>
   requests (snd (get_from_devops (always (status_only 200)) (Url JNull) empty_world))
     = [Url JNull]"
  using
    get_from_devops_classification
      [of "always (Raises ReadTimeout)" empty_world "Url JNull" ReadTimeout]
    get_from_devops_classification
      [of "always (Raises SSLError)" empty_world "Url JNull" SSLError]
    get_from_devops_classification
      [of "always (status_only 203)" empty_world "Url JNull" _ "\<lparr>status_code = 203, body = None\<rparr>"]
    get_from_devops_classification
      [of "always (status_only 404)" empty_world "Url JNull" _ "\<lparr>status_code = 404, body = None\<rparr>"]
    get_from_devops_classification
      [of "always (status_only 503)" empty_world "Url JNull" _ "\<lparr>status_code = 503, body = None\<rparr>"]
    get_from_devops_classification
      [of "always (status_only 200)" empty_world "Url JNull" _ "\<lparr>status_code = 200, body = None\<rparr>"]
  by (simp add: always_def status_only_def empty_world_def)

text \<open>
  Claim C5, at a failing input: the connection breaks while the body is read, and
  \<^verbatim>\<open>requests.get\<close> raises \<^verbatim>\<open>ChunkedEncodingError\<close>. No handler of
  \<^verbatim>\<open>get_from_devops\<close> names the class: the call gives neither a \<^verbatim>\<open>NetworkError\<close> nor
  a response, the exception goes on to the caller, and a run whose package list request
  fails so ends with it.
\<close>

theorem unhandled_request_exception_escapes:
  "get_from_devops (always (Raises ChunkedEncodingError)) (Url JNull) empty_world =
     (Inl RequestException, \<lparr>requests = [Url JNull], packages = []\<rparr>) \<and>
   download (always (Raises ChunkedEncodingError)) example_env empty_world =
     (Raised RequestException,
      \<lparr>requests = [Url (JStr ''https://packages'')], packages = []\<rparr>)"
  by (simp add: download_def get_from_devops_def always_def example_env_def empty_world_def)

section \<open>The run\<close>

text \<open>What a download does to the world: it appends its one request.\<close>

lemma get_from_devops_world:
  "get_from_devops up u w = (r, w') \<Longrightarrow> w' = w\<lparr>requests := requests w @ [u]\<rparr>"
  by (auto simp: get_from_devops_def Let_def split: requests_result.splits if_splits)

lemma feed_world:
  "get_npm_versions_from_devops_feed up u w = (r, w')
   \<Longrightarrow> w' = w\<lparr>requests := requests w @ [Url u]\<rparr>"
  by (auto simp: get_npm_versions_from_devops_feed_def
      split: prod.splits sum.splits fetched.splits dest: get_from_devops_world)

lemma registry_world:
  "get_extra_npm_info_from_devops_npm_registry up env_vars pn vs w = (r, w')
   \<Longrightarrow> w' = w\<lparr>requests := requests w @ [RegistryUrl (npm_registry_base_url env_vars) pn]\<rparr>"
  by (auto simp: get_extra_npm_info_from_devops_npm_registry_def
      split: prod.splits sum.splits fetched.splits dest: get_from_devops_world)

text \<open>A prefix of the package list that the loop gets through leaves the rest to run.\<close>

lemma download_loop_append:
  "download_loop up env_vars pre c w = (Finished, w1)
   \<Longrightarrow> download_loop up env_vars (pre @ rest) c w = download_loop up env_vars rest c w1"
proof (induction pre arbitrary: w)
  case Nil
  then show ?case by simp
next
  case (Cons p pre)
  then show ?case
    by (auto split: prod.splits step.splits)
qed

text \<open>
  The counter that \<^verbatim>\<open>download\<close> passes is always 0, and with it no error but the
  authentication failure makes \<^verbatim>\<open>validate_package_versions\<close> answer \<open>RETURN\<close>.
\<close>

lemma validate_counter_zero:
  "n \<noteq> DEVOPS_AUTH_FAILURE \<Longrightarrow> validate_package_versions (NetErr n) 0 = CONTINUE"
  by (cases n) (simp_all add: validate_package_versions_def)

text \<open>
  Claim C9, at a failing input: the request for the package list times out. The run
  does not stop after logging: it calls \<^verbatim>\<open>json()\<close> on the \<^verbatim>\<open>NetworkError\<close> and ends with
  the \<^verbatim>\<open>AttributeError\<close> that this raises, the one request made and no package processed.
\<close>

theorem download_package_list_timeout:
  "download (always (Raises Timeout)) example_env empty_world =
     (Raised AttributeError, \<lparr>requests = [Url (JStr ''https://packages'')], packages = []\<rparr>)"
  by (simp add: download_def get_from_devops_def always_def example_env_def empty_world_def)

text \<open>
  Claim C1, at a failing input: the feeds of five packages in a row fail with a
  connection error. The run does not stop at the fifth: it goes on to the sixth package,
  makes its two requests and stores it, and ends after the last package.
\<close>

theorem fifth_failure_does_not_stop_run:
  "fst (download five_failures example_env empty_world) = Finished \<and>
   requests (snd (download five_failures example_env empty_world)) =
     [Url (JStr ''https://packages''),
      Url (JStr ''a''), Url (JStr ''b''), Url (JStr ''c''), Url (JStr ''d''), Url (JStr ''e''),
      Url (JStr ''f''), RegistryUrl ''https://registry'' (JStr ''f'')] \<and>
   map (\<lambda>d. map_of d ''name'') (packages (snd (download five_failures example_env empty_world)))
     = [Some (JStr ''f'')]"
  by code_simp

lemma read_catalog_entry:
  "read_package_response (catalog_entry n) = Inr (JStr n, JStr ''1.0.0'', JStr n)"
  by (simp add: read_package_response_def catalog_entry_def and_then_def)

text \<open>
  Claim C2. Let the loop have got through the packages before \<open>p\<close>, and let \<open>p\<close> not be
  up to date in the store. If the feed download of \<open>p\<close> ends with the authentication
  failure, or the feed download gives versions and the registry download ends with it,
  then the run returns there, whatever the packages after \<open>p\<close> are and whatever the
  value of the error counter is: the world at the end is the world right after the
  failed download, so that no package after \<open>p\<close> is read, no further request is made,
  and the store is as it was when \<open>p\<close> was reached.
\<close>

theorem auth_failure_aborts_run:
  assumes pre: "download_loop up env_vars pre c w = (Finished, w1)"
    and rd: "read_package_response p = Inr (package_name, latest, u)"
    and st: "check_package_status_in_mongo package_name latest (packages w1) = Inr status"
    and stale: "status \<noteq> UP_TO_DATE"
    and feed: "get_npm_versions_from_devops_feed up u w1 = (Inr fv, w2)"
    and auth: "(fv = NetErr DEVOPS_AUTH_FAILURE \<and> w3 = w2) \<or>
               (\<exists>vs. fv = Got vs \<and> vs \<noteq> [] \<and>
                  get_extra_npm_info_from_devops_npm_registry up env_vars package_name vs w2
                    = (Inr (NetErr DEVOPS_AUTH_FAILURE), w3))"
  shows "download_loop up env_vars (pre @ p # post) c w = (Returned, w3) \<and>
         packages w3 = packages w1 \<and>
         requests w3 =
           (if fv = NetErr DEVOPS_AUTH_FAILURE then requests w1 @ [Url u]
            else requests w1 @ [Url u, RegistryUrl (npm_registry_base_url env_vars) package_name])"
proof -
  have step: "process_package up env_vars p c w1 = (Return, w3)"
    using rd st stale feed auth
    by (auto simp: process_package_def enrich_and_upload_def validate_package_versions_def)
  have "download_loop up env_vars (pre @ p # post) c w = download_loop up env_vars (p # post) c w1"
    using pre by (rule download_loop_append)
  also have "\<dots> = (Returned, w3)"
    using step by simp
  finally have run: "download_loop up env_vars (pre @ p # post) c w = (Returned, w3)" .
  have w2: "w2 = w1\<lparr>requests := requests w1 @ [Url u]\<rparr>"
    using feed by (rule feed_world)
  have w3: "packages w3 = packages w1 \<and>
         requests w3 =
           (if fv = NetErr DEVOPS_AUTH_FAILURE then requests w1 @ [Url u]
            else requests w1 @ [Url u, RegistryUrl (npm_registry_base_url env_vars) package_name])"
    using auth
  proof
    assume "fv = NetErr DEVOPS_AUTH_FAILURE \<and> w3 = w2"
    with w2 show ?thesis by simp
  next
    assume "\<exists>vs. fv = Got vs \<and> vs \<noteq> [] \<and>
       get_extra_npm_info_from_devops_npm_registry up env_vars package_name vs w2
         = (Inr (NetErr DEVOPS_AUTH_FAILURE), w3)"
    then obtain vs where "fv = Got vs" and
      "get_extra_npm_info_from_devops_npm_registry up env_vars package_name vs w2
         = (Inr (NetErr DEVOPS_AUTH_FAILURE), w3)"
      by blast
    with w2 registry_world [OF this(2)] show ?thesis by simp
  qed
  from run w3 show ?thesis by simp
qed

theorem auth_failure_aborts_run_witness:
  "download_loop feed_rejects example_env [catalog_entry ''a'', catalog_entry ''b''] 4 empty_world
     = (Returned, \<lparr>requests = [Url (JStr ''a'')], packages = []\<rparr>) \<and>
   download_loop registry_rejects example_env [catalog_entry ''a'', catalog_entry ''b''] 0 empty_world
     = (Returned,
        \<lparr>requests = [Url (JStr ''a''), RegistryUrl ''https://registry'' (JStr ''a'')],
         packages = []\<rparr>)"
proof -
  let ?w1 = "\<lparr>requests = [Url (JStr ''a'')], packages = []\<rparr>"
  let ?w2 = "\<lparr>requests = [Url (JStr ''a''), RegistryUrl ''https://registry'' (JStr ''a'')],
         packages = []\<rparr>"
  have st: "check_package_status_in_mongo (JStr ''a'') (JStr ''1.0.0'') (packages empty_world)
      = Inr NOT_FOUND"
    by (simp add: check_package_status_in_mongo_def find_one_def matches_name_def empty_world_def)
  have stale: "NOT_FOUND \<noteq> UP_TO_DATE" by simp
  have pre1: "download_loop feed_rejects example_env [] 4 empty_world = (Finished, empty_world)"
    by simp
  have feed1: "get_npm_versions_from_devops_feed feed_rejects (JStr ''a'') empty_world
      = (Inr (NetErr DEVOPS_AUTH_FAILURE), ?w1)"
    by (simp add: get_npm_versions_from_devops_feed_def get_from_devops_def feed_rejects_def
        status_only_def empty_world_def)
  have auth1: "(NetErr DEVOPS_AUTH_FAILURE = NetErr DEVOPS_AUTH_FAILURE \<and> ?w1 = ?w1) \<or>
       (\<exists>vs. NetErr DEVOPS_AUTH_FAILURE = Got vs \<and> vs \<noteq> [] \<and>
          get_extra_npm_info_from_devops_npm_registry feed_rejects example_env (JStr ''a'') vs ?w1
            = (Inr (NetErr DEVOPS_AUTH_FAILURE), ?w1))"
    by simp
  have pre2: "download_loop registry_rejects example_env [] 0 empty_world = (Finished, empty_world)"
    by simp
  obtain vs where feed2: "get_npm_versions_from_devops_feed registry_rejects (JStr ''a'') empty_world
      = (Inr (Got vs), ?w1)" and vs: "vs \<noteq> []"
    by (simp add: get_npm_versions_from_devops_feed_def get_from_devops_def registry_rejects_def
        ok_def feed_doc_def json_of_def and_then_def feed_version_def empty_world_def)
  have reg2: "get_extra_npm_info_from_devops_npm_registry registry_rejects example_env (JStr ''a'') vs ?w1
       = (Inr (NetErr DEVOPS_AUTH_FAILURE), ?w2)"
    by (simp add: get_extra_npm_info_from_devops_npm_registry_def get_from_devops_def
        registry_rejects_def status_only_def example_env_def)
  have auth2: "(Got vs = NetErr DEVOPS_AUTH_FAILURE \<and> ?w2 = ?w1) \<or>
       (\<exists>vs'. Got vs = Got vs' \<and> vs' \<noteq> [] \<and>
          get_extra_npm_info_from_devops_npm_registry registry_rejects example_env (JStr ''a'') vs' ?w1
            = (Inr (NetErr DEVOPS_AUTH_FAILURE), ?w2))"
    using vs reg2 by simp
  show ?thesis
    using
      auth_failure_aborts_run [OF pre1 read_catalog_entry st stale feed1 auth1,
        of "[catalog_entry ''b'']"]
      auth_failure_aborts_run [OF pre2 read_catalog_entry st stale feed2 auth2,
        of "[catalog_entry ''b'']"]
    by simp
qed


section \<open>The version reconciler\<close>

lemma and_then_Inr_iff:
  "and_then m f = Inr y \<longleftrightarrow> (\<exists>x. m = Inr x \<and> f x = Inr y)"
  by (cases m) (simp_all add: and_then_def)

lemma py_get_key_not_None:
  "py_get_key (JObj reg) k \<noteq> Inr JNull \<longleftrightarrow> (\<exists>s j. k = KStr s \<and> map_of reg s = Some j \<and> j \<noteq> JNull)"
  by (cases k) (auto split: option.splits)

lemma enrich_versions_keys:
  "enrich_versions env_vars pn dvs pvs acc = Inr out
   \<Longrightarrow> fst ` set out = fst ` set acc \<union> {k \<in> fst ` set pvs. py_get_key dvs k \<noteq> Inr JNull}"
proof (induction pvs arbitrary: acc)
  case Nil
  then show ?case by simp
next
  case (Cons kv pvs)
  obtain k v where kv: "kv = (k, v)" by (cases kv)
  from Cons.prems kv obtain jv where jv: "py_get_key dvs k = Inr jv"
    by (cases "py_get_key dvs k") auto
  show ?case
  proof (cases "jv = JNull")
    case True
    with Cons.prems kv jv have "enrich_versions env_vars pn dvs pvs acc = Inr out" by simp
    from Cons.IH [OF this] True jv kv show ?thesis by auto
  next
    case False
    with Cons.prems kv jv obtain v' where
      "enrich_versions env_vars pn dvs pvs (AList.update k v' acc) = Inr out"
      by (cases "enrich_version env_vars pn jv v") auto
    from Cons.IH [OF this] False jv kv show ?thesis by (auto simp: dom_update)
  qed
qed

lemma enrich_versions_entries:
  "enrich_versions env_vars pn dvs pvs acc = Inr out \<Longrightarrow> map_of out k = Some v'
   \<Longrightarrow> map_of acc k = Some v' \<or>
       (\<exists>jv v0. py_get_key dvs k = Inr jv \<and> jv \<noteq> JNull \<and>
                enrich_version env_vars pn jv v0 = Inr v')"
proof (induction pvs arbitrary: acc)
  case Nil
  then show ?case by simp
next
  case (Cons kv pvs)
  obtain k0 v0 where kv: "kv = (k0, v0)" by (cases kv)
  from Cons.prems(1) kv obtain jv where jv: "py_get_key dvs k0 = Inr jv"
    by (cases "py_get_key dvs k0") auto
  show ?case
  proof (cases "jv = JNull")
    case True
    with Cons.prems(1) kv jv have "enrich_versions env_vars pn dvs pvs acc = Inr out" by simp
    from Cons.IH [OF this Cons.prems(2)] show ?thesis .
  next
    case False
    with Cons.prems(1) kv jv obtain v1 where
      v1: "enrich_version env_vars pn jv v0 = Inr v1" and
      rest: "enrich_versions env_vars pn dvs pvs (AList.update k0 v1 acc) = Inr out"
      by (cases "enrich_version env_vars pn jv v0") auto
    from Cons.IH [OF rest Cons.prems(2)] jv False v1 show ?thesis
      by (auto simp: update_conv' split: if_splits)
  qed
qed

lemma enrich_version_fields:
  assumes "enrich_version env_vars pn jv v0 = Inr v"
  shows "\<exists>kvs dist auth.
      jv = JObj kvs \<and> py_get jv ''author'' = Inr auth \<and>
      py_get jv ''dist'' = Inr dist \<and>
      py_get dist ''shasum'' = Inr (shasum v) \<and>
      py_get dist ''tarball'' = Inr (tarball v) \<and>
      (if auth \<noteq> JNull then py_get auth ''name'' = Inr (author v)
       else author v = JStr (fallback_author env_vars)) \<and>
      (\<exists>x. py_get jv ''displayName'' = Inr x \<and> display_name v = py_or x pn) \<and>
      (\<exists>x. py_get jv ''unity'' = Inr x \<and> unity v = py_or x (JStr ''Unknown Unity Version'')) \<and>
      (\<exists>x. py_get jv ''category'' = Inr x \<and>
           category v = py_or (if x = JNull \<and> auth \<noteq> JNull then author v else x) (JStr ''Unknown'')) \<and>
      (\<exists>x. py_get jv ''hideInEditor'' = Inr x \<and> hide_in_editor v = py_or x (JBool False)) \<and>
      dependencies v = dependencies v0 \<and> version_number v = version_number v0"
  using assms unfolding enrich_version_def and_then_Inr_iff
  by (cases jv) (auto split: if_splits)

lemma registry_fetch_Got:
  assumes "get_extra_npm_info_from_devops_npm_registry up env_vars pn pvs w = (Inr (Got out), w')"
      and "up (length (requests w)) (RegistryUrl (npm_registry_base_url env_vars) pn) = Returns r"
      and "body r = Some doc" and "py_get doc ''versions'' = Inr dvs"
  shows "enrich_versions env_vars pn dvs pvs [] = Inr out"
  using assms
  by (auto simp: get_extra_npm_info_from_devops_npm_registry_def get_from_devops_def Let_def
        json_of_def and_then_def split: if_splits sum.splits)

text \<open>
  Claim C3, as the code has it. When the registry download returns a map, a version id
  is in the map if and only if it is a key of the map from the feed and the registry
  document's \<^verbatim>\<open>versions\<close> holds an entry for it that is not \<^verbatim>\<open>null\<close>. A version whose
  registry entry is missing or \<^verbatim>\<open>null\<close> is passed over: the loop goes on with the
  versions after it, and raises nothing for it.
\<close>

theorem enrichment_output_keys:
  assumes "get_extra_npm_info_from_devops_npm_registry up env_vars pn pvs w = (Inr (Got out), w')"
      and "up (length (requests w)) (RegistryUrl (npm_registry_base_url env_vars) pn) = Returns r"
      and "body r = Some doc" and "py_get doc ''versions'' = Inr (JObj reg)"
  shows "(k \<in> fst ` set out \<longleftrightarrow>
           k \<in> fst ` set pvs \<and> (\<exists>s j. k = KStr s \<and> map_of reg s = Some j \<and> j \<noteq> JNull)) \<and>
         (py_get_key (JObj reg) k' = Inr JNull \<longrightarrow>
           enrich_versions env_vars pn (JObj reg) ((k', v) # rest) acc =
           enrich_versions env_vars pn (JObj reg) rest acc)"
proof -
  have "enrich_versions env_vars pn (JObj reg) pvs [] = Inr out"
    using assms by (rule registry_fetch_Got)
  from enrich_versions_keys [OF this]
  have "k \<in> fst ` set out \<longleftrightarrow> k \<in> fst ` set pvs \<and> py_get_key (JObj reg) k \<noteq> Inr JNull"
    by auto
  then show ?thesis
    by (simp add: py_get_key_not_None)
qed

theorem enrichment_output_keys_witness:
  "(\<exists>out w'.
     get_extra_npm_info_from_devops_npm_registry
       (always (ok (JObj [(''versions'', JObj registry_versions)]))) example_env (JStr ''foo'')
       example_feed_versions empty_world = (Inr (Got out), w') \<and>
     KStr ''1.0.0'' \<in> fst ` set out \<and> KStr ''2.0.0'' \<notin> fst ` set out) \<and>
   enrich_versions example_env (JStr ''foo'') (JObj registry_versions)
     [(KStr ''2.0.0'', snd (last example_feed_versions))] [] = Inr []"
proof -
  let ?up = "always (ok (JObj [(''versions'', JObj registry_versions)]))"
  let ?r = "\<lparr>status_code = 200, body = Some (JObj [(''versions'', JObj registry_versions)])\<rparr>"
  obtain out w' where run:
    "get_extra_npm_info_from_devops_npm_registry ?up example_env (JStr ''foo'')
       example_feed_versions empty_world = (Inr (Got out), w')"
    by (simp add: get_extra_npm_info_from_devops_npm_registry_def get_from_devops_def always_def
        ok_def json_of_def and_then_def example_feed_versions_def registry_versions_def
        enrich_version_def)
  have up: "?up (length (requests empty_world))
      (RegistryUrl (npm_registry_base_url example_env) (JStr ''foo'')) = Returns ?r"
    by (simp add: always_def ok_def)
  have body: "body ?r = Some (JObj [(''versions'', JObj registry_versions)])"
    by simp
  have vs: "py_get (JObj [(''versions'', JObj registry_versions)]) ''versions''
      = Inr (JObj registry_versions)"
    by simp
  have absent: "py_get_key (JObj registry_versions) (KStr ''2.0.0'') = Inr JNull"
    by (simp add: registry_versions_def)
  from enrichment_output_keys [OF run up body vs, of "KStr ''1.0.0''"]
       enrichment_output_keys [OF run up body vs, of "KStr ''2.0.0''"]
  have keys: "KStr ''1.0.0'' \<in> fst ` set out \<and> KStr ''2.0.0'' \<notin> fst ` set out"
    by (simp add: example_feed_versions_def registry_versions_def)
  from enrichment_output_keys [OF run up body vs,
      where k' = "KStr ''2.0.0''" and v = "snd (last example_feed_versions)"
        and rest = "[]" and acc = "[]"] absent
  have dropped: "enrich_versions example_env (JStr ''foo'') (JObj registry_versions)
     [(KStr ''2.0.0'', snd (last example_feed_versions))] [] = Inr []"
    by simp
  from run keys dropped show ?thesis by blast
qed

text \<open>
  Claim C3 as stated fails where the registry holds the key with the value \<^verbatim>\<open>null\<close>:
  version 1.0.0 is a key of the feed map and of the registry's \<^verbatim>\<open>versions\<close>, and the
  output is empty.
\<close>

theorem null_registry_entry_counterexample:
  "get_extra_npm_info_from_devops_npm_registry
     (always (ok (JObj [(''versions'', JObj null_registry_versions)]))) example_env (JStr ''foo'')
     example_feed_versions empty_world
     = (Inr (Got []),
        \<lparr>requests = [RegistryUrl ''https://registry'' (JStr ''foo'')], packages = []\<rparr>) \<and>
   KStr ''1.0.0'' \<in> fst ` set example_feed_versions \<and>
   ''1.0.0'' \<in> fst ` set null_registry_versions"
  by (simp add: get_extra_npm_info_from_devops_npm_registry_def get_from_devops_def always_def
        ok_def json_of_def and_then_def example_feed_versions_def null_registry_versions_def
        example_env_def empty_world_def)

text \<open>
  Claim C6. When the registry loop returns, a version of the feed map whose registry
  entry \<open>jv\<close> is not \<^verbatim>\<open>null\<close> has an enriched record, in which: the author is the
  configured fallback when \<open>jv\<close> has no author, and the author's \<^verbatim>\<open>name\<close> otherwise;
  the display name is that of \<open>jv\<close>, or the package name when \<open>jv\<close> has none (or an
  empty one); the platform tag likewise falls back to \<^verbatim>\<open>"Unknown Unity Version"\<close>; the
  category is that of \<open>jv\<close>, or the author's name when \<open>jv\<close> has no category but an
  author, or \<^verbatim>\<open>"Unknown"\<close>; and \<^verbatim>\<open>hide_in_editor\<close> is that of \<open>jv\<close>, or \<^verbatim>\<open>False\<close>.
\<close>

theorem enriched_display_fields:
  assumes run: "enrich_versions env_vars pn (JObj reg) pvs [] = Inr out"
      and feed: "KStr s \<in> fst ` set pvs"
      and reg: "map_of reg s = Some jv" "jv \<noteq> JNull"
  shows "\<exists>v. map_of out (KStr s) = Some v \<and>
     (py_get jv ''author'' = Inr JNull \<longrightarrow> author v = JStr (fallback_author env_vars)) \<and>
     (\<forall>a. py_get jv ''author'' = Inr a \<and> a \<noteq> JNull \<longrightarrow> py_get a ''name'' = Inr (author v)) \<and>
     (\<forall>x. py_get jv ''displayName'' = Inr x \<longrightarrow> display_name v = (if truthy x then x else pn)) \<and>
     (\<forall>x. py_get jv ''unity'' = Inr x \<longrightarrow>
          unity v = (if truthy x then x else JStr ''Unknown Unity Version'')) \<and>
     (\<forall>x. py_get jv ''category'' = Inr x \<and> x \<noteq> JNull \<longrightarrow>
          category v = (if truthy x then x else JStr ''Unknown'')) \<and>
     (py_get jv ''category'' = Inr JNull \<and> py_get jv ''author'' \<noteq> Inr JNull \<longrightarrow>
          category v = (if truthy (author v) then author v else JStr ''Unknown'')) \<and>
     (py_get jv ''category'' = Inr JNull \<and> py_get jv ''author'' = Inr JNull \<longrightarrow>
          category v = JStr ''Unknown'') \<and>
     (\<forall>x. py_get jv ''hideInEditor'' = Inr x \<longrightarrow>
          hide_in_editor v = (if truthy x then x else JBool False))"
proof -
  have "py_get_key (JObj reg) (KStr s) \<noteq> Inr JNull"
    using reg by simp
  with enrich_versions_keys [OF run] feed have "KStr s \<in> fst ` set out"
    by auto
  then obtain v where v: "map_of out (KStr s) = Some v"
    by (metis domD dom_map_of_conv_image_fst)
  from enrich_versions_entries [OF run v] reg obtain v0 where
    "enrich_version env_vars pn jv v0 = Inr v"
    by auto
  from enrich_version_fields [OF this] show ?thesis
    using v by (auto simp: py_or_def split: if_splits)
qed


theorem enriched_display_fields_witness:
  "(\<exists>out v.
     enrich_versions example_env (JStr ''foo'') (JObj registry_versions) example_feed_versions []
       = Inr out \<and>
     map_of out (KStr ''1.0.0'') = Some v \<and>
     author v = JStr ''ACME'' \<and> display_name v = JStr ''foo'' \<and>
     unity v = JStr ''Unknown Unity Version'' \<and> category v = JStr ''Unknown'' \<and>
     hide_in_editor v = JBool False) \<and>
   (\<exists>out v.
     enrich_versions example_env (JStr ''foo'') (JObj authored_registry_versions)
       example_feed_versions [] = Inr out \<and>
     map_of out (KStr ''1.0.0'') = Some v \<and>
     author v = JStr ''Ann'' \<and> display_name v = JStr ''Foo'' \<and>
     unity v = JStr ''2021.3'' \<and> category v = JStr ''Ann'' \<and>
     hide_in_editor v = JBool True)"
proof -
  let ?jv = "JObj [(''dist'', JObj [(''shasum'', JStr ''abc''), (''tarball'', JStr ''t'')])]"
  let ?jv' = "JObj [(''dist'', JObj [(''shasum'', JStr ''abc''), (''tarball'', JStr ''t'')]),
                        (''author'', JObj [(''name'', JStr ''Ann'')]),
                        (''displayName'', JStr ''Foo''),
                        (''unity'', JStr ''2021.3''),
                        (''hideInEditor'', JBool True)]"
  have feed: "KStr ''1.0.0'' \<in> fst ` set example_feed_versions"
    by (simp add: example_feed_versions_def)
  obtain out where run:
    "enrich_versions example_env (JStr ''foo'') (JObj registry_versions) example_feed_versions []
       = Inr out"
    by (simp add: and_then_def example_feed_versions_def registry_versions_def enrich_version_def)
  have reg: "map_of registry_versions ''1.0.0'' = Some ?jv"
    by (simp add: registry_versions_def)
  have nn: "?jv \<noteq> JNull" by simp
  from enriched_display_fields [OF run feed reg nn] run have first: "\<exists>out v.
     enrich_versions example_env (JStr ''foo'') (JObj registry_versions) example_feed_versions []
       = Inr out \<and>
     map_of out (KStr ''1.0.0'') = Some v \<and>
     author v = JStr ''ACME'' \<and> display_name v = JStr ''foo'' \<and>
     unity v = JStr ''Unknown Unity Version'' \<and> category v = JStr ''Unknown'' \<and>
     hide_in_editor v = JBool False"
    by (auto simp: example_env_def)
  obtain out' where run':
    "enrich_versions example_env (JStr ''foo'') (JObj authored_registry_versions)
       example_feed_versions [] = Inr out'"
    by (simp add: and_then_def example_feed_versions_def authored_registry_versions_def
        enrich_version_def)
  have reg': "map_of authored_registry_versions ''1.0.0'' = Some ?jv'"
    by (simp add: authored_registry_versions_def)
  have nn': "?jv' \<noteq> JNull" by simp
  from enriched_display_fields [OF run' feed reg' nn'] run' have second: "\<exists>out v.
     enrich_versions example_env (JStr ''foo'') (JObj authored_registry_versions)
       example_feed_versions [] = Inr out \<and>
     map_of out (KStr ''1.0.0'') = Some v \<and>
     author v = JStr ''Ann'' \<and> display_name v = JStr ''Foo'' \<and>
     unity v = JStr ''2021.3'' \<and> category v = JStr ''Ann'' \<and>
     hide_in_editor v = JBool True"
    by (auto dest!: sym [of "JStr ''Ann''"])
  from first second show ?thesis by (rule conjI)
qed

section \<open>The staleness check\<close>

text \<open>What \<^verbatim>\<open>from_dict\<close> makes of the stored documents of the examples.\<close>

lemma from_dict_stored_version:
  "from_dict_NpmPackageVersion (stored_version (JStr ''abc'')) =
     Inr \<lparr>version_number = ''1.0.0'', description = ''d'', publish_date = ''2020'',
          dependencies = [(''bar'', ''^1.0.0'')], shasum = Some ''abc'', tarball = Some ''t'',
          author = Some ''ACME'', display_name = Some ''Foo'', unity = Some ''2021.3'',
          category = Some ''Tools'', hide_in_editor = False\<rparr>"
  by (simp add: from_dict_NpmPackageVersion_def stored_version_def and_then_def str_field_def
      str_field_default_None_def bool_field_default_True_def dict_str_str_field_def)

lemma from_dict_stored_version_null:
  "from_dict_NpmPackageVersion (stored_version JNull) = Inl WrongTypeError"
  by (simp add: from_dict_NpmPackageVersion_def stored_version_def and_then_def str_field_def
      str_field_default_None_def bool_field_default_True_def dict_str_str_field_def)

lemma from_dict_stored_foo:
  "from_dict_NpmPackage (stored_foo (JStr ''abc'')) =
     Inr \<lparr>name = ''foo'', latest_version = ''1.0.0'',
          versions = [(''1.0.0'',
            \<lparr>version_number = ''1.0.0'', description = ''d'', publish_date = ''2020'',
             dependencies = [(''bar'', ''^1.0.0'')], shasum = Some ''abc'', tarball = Some ''t'',
             author = Some ''ACME'', display_name = Some ''Foo'', unity = Some ''2021.3'',
             category = Some ''Tools'', hide_in_editor = False\<rparr>)]\<rparr>"
  by (simp add: from_dict_NpmPackage_def stored_foo_def versions_field_def and_then_def str_field_def
      from_dict_stored_version)

lemma from_dict_stored_foo_null:
  "from_dict_NpmPackage (stored_foo JNull) = Inl WrongTypeError"
  by (simp add: from_dict_NpmPackage_def stored_foo_def versions_field_def and_then_def str_field_def
      from_dict_stored_version_null)

lemma find_stored_foo: "find_one [stored_foo sh] (JStr ''foo'') = Some (stored_foo sh)"
  by (simp add: find_one_def matches_name_def stored_foo_def)

text \<open>
  The check where the handler covers the failure. It answers \<open>NOT_FOUND\<close> when the store has no
  document of that name, and when the document fails the type check of
  \<^verbatim>\<open>dacite.from_dict\<close> (\<^verbatim>\<open>WrongTypeError\<close>); \<open>UP_TO_DATE\<close> when the document
  deserialises and its \<^verbatim>\<open>latest_version\<close> equals the upstream's as a string;
  \<open>OUT_OF_DATE\<close> when it deserialises and they differ. When the check answers
  \<open>UP_TO_DATE\<close> the loop body ends there: the world is unchanged, so no request was made.
\<close>

lemma staleness_check:
  "(find_one coll pn = None \<longrightarrow> check_package_status_in_mongo pn lv coll = Inr NOT_FOUND) \<and>
   (find_one coll pn = Some d \<and> from_dict_NpmPackage d = Inl WrongTypeError
      \<longrightarrow> check_package_status_in_mongo pn lv coll = Inr NOT_FOUND) \<and>
   (find_one coll pn = Some d \<and> from_dict_NpmPackage d = Inr found
      \<and> JStr (latest_version found) = lv
      \<longrightarrow> check_package_status_in_mongo pn lv coll = Inr UP_TO_DATE) \<and>
   (find_one coll pn = Some d \<and> from_dict_NpmPackage d = Inr found
      \<and> JStr (latest_version found) \<noteq> lv
      \<longrightarrow> check_package_status_in_mongo pn lv coll = Inr OUT_OF_DATE) \<and>
   (read_package_response p = Inr (pn, lv, u)
      \<and> check_package_status_in_mongo pn lv (packages w) = Inr UP_TO_DATE
      \<longrightarrow> process_package up env_vars p c w = (Next, w))"
  by (simp add: check_package_status_in_mongo_def process_package_def)

lemma staleness_check_examples:
  "check_package_status_in_mongo (JStr ''foo'') (JStr ''1.0.0'') [] = Inr NOT_FOUND \<and>
   check_package_status_in_mongo (JStr ''foo'') (JStr ''1.0.0'') [stored_foo JNull] = Inr NOT_FOUND \<and>
   check_package_status_in_mongo (JStr ''foo'') (JStr ''1.0.0'') [stored_foo (JStr ''abc'')]
     = Inr UP_TO_DATE \<and>
   check_package_status_in_mongo (JStr ''foo'') (JStr ''1.0.1'') [stored_foo (JStr ''abc'')]
     = Inr OUT_OF_DATE \<and>
   process_package (always (status_only 203)) example_env
     (JObj [(''name'', JStr ''foo''),
            (''versions'', JArr [JObj [(''version'', JStr ''1.0.0'')]]),
            (''_links'', JObj [(''versions'', JObj [(''href'', JStr ''u'')])])])
     0 \<lparr>requests = [], packages = [stored_foo (JStr ''abc'')]\<rparr>
     = (Next, \<lparr>requests = [], packages = [stored_foo (JStr ''abc'')]\<rparr>)"
proof -
  let ?p = "JObj [(''name'', JStr ''foo''),
            (''versions'', JArr [JObj [(''version'', JStr ''1.0.0'')]]),
            (''_links'', JObj [(''versions'', JObj [(''href'', JStr ''u'')])])]"
  let ?w = "\<lparr>requests = [], packages = [stored_foo (JStr ''abc'')]\<rparr>"
  have none: "find_one [] (JStr ''foo'') = None"
    by (simp add: find_one_def matches_name_def)
  have rd: "read_package_response ?p = Inr (JStr ''foo'', JStr ''1.0.0'', JStr ''u'')"
    by (simp add: read_package_response_def and_then_def)
  have pk: "packages ?w = [stored_foo (JStr ''abc'')]" by simp
  let ?pkg = "\<lparr>name = ''foo'', latest_version = ''1.0.0'',
          versions = [(''1.0.0'',
            \<lparr>version_number = ''1.0.0'', description = ''d'', publish_date = ''2020'',
             dependencies = [(''bar'', ''^1.0.0'')], shasum = Some ''abc'', tarball = Some ''t'',
             author = Some ''ACME'', display_name = Some ''Foo'', unity = Some ''2021.3'',
             category = Some ''Tools'', hide_in_editor = False\<rparr>)]\<rparr>"
  note t1 = staleness_check [where coll = "[]" and pn = "JStr ''foo''" and lv = "JStr ''1.0.0''"]
  note t2 = staleness_check [where coll = "[stored_foo JNull]" and pn = "JStr ''foo''"
      and lv = "JStr ''1.0.0''" and d = "stored_foo JNull"]
  note t3 = staleness_check [where coll = "[stored_foo (JStr ''abc'')]" and pn = "JStr ''foo''"
      and lv = "JStr ''1.0.0''" and d = "stored_foo (JStr ''abc'')" and found = ?pkg
      and p = ?p and u = "JStr ''u''" and w = ?w and up = "always (status_only 203)"
      and env_vars = example_env and c = 0]
  note t4 = staleness_check [where coll = "[stored_foo (JStr ''abc'')]" and pn = "JStr ''foo''"
      and lv = "JStr ''1.0.1''" and d = "stored_foo (JStr ''abc'')" and found = ?pkg]
  show ?thesis
    using t1 t2 t3 t4 none rd
    by (simp add: find_stored_foo from_dict_stored_foo from_dict_stored_foo_null)
qed

text \<open>
  Claim C4, at a failing input: the stored document of \<^verbatim>\<open>foo\<close> lacks the field
  \<^verbatim>\<open>latest_version\<close>. It fails to deserialise: \<^verbatim>\<open>from_dict\<close> raises
  \<^verbatim>\<open>MissingValueError\<close>. The handler is for \<^verbatim>\<open>WrongTypeError\<close>, so the check does not
  answer \<open>NOT_FOUND\<close>: the exception leaves the check, the loop body and the run, before
  any request for the package is made.
\<close>

theorem missing_field_raises:
  "find_one [foo_without_latest_version] (JStr ''foo'') = Some foo_without_latest_version \<and>
   from_dict_NpmPackage foo_without_latest_version = Inl MissingValueError \<and>
   check_package_status_in_mongo (JStr ''foo'') (JStr ''1.0.0'') [foo_without_latest_version]
     = Inl MissingValueError \<and>
   download_loop (always (ok feed_doc)) example_env [catalog_entry ''foo''] 0
       \<lparr>requests = [], packages = [foo_without_latest_version]\<rparr>
     = (Raised MissingValueError, \<lparr>requests = [], packages = [foo_without_latest_version]\<rparr>)"
  by (simp add: check_package_status_in_mongo_def find_one_def matches_name_def
      foo_without_latest_version_def from_dict_NpmPackage_def and_then_def str_field_def
      process_package_def read_catalog_entry)

section \<open>The registry projector\<close>

lemma package_route_found:
  assumes "find_one coll (JStr pn) = Some doc"
      and "from_dict_NpmPackage doc = Inr package"
      and "map_of (versions package) (latest_version package) = Some latest"
  shows "package_route coll pn token =
     Response 200 (JObj
       [(''_id'', JStr pn),
        (''_rev'', JStr token),
        (''name'', JStr pn),
        (''description'', JStr (description latest)),
        (''license'', JStr LICENSE),
        (''dist-tags'', JObj [(''latest'', JStr (version_number latest))]),
        (''versions'', JObj (snd (version_loop pn (versions package) ([], [])))),
        (''time'', JObj (fst (version_loop pn (versions package) ([], [])))),
        (''displayName'', opt_str (display_name latest)),
        (''unity'', opt_str (unity latest)),
        (''category'', opt_str (category latest)),
        (''hideInEditor'', JBool (hide_in_editor latest)),
        (''author'', opt_str (author latest))])"
  using assms by (simp add: package_route_def split: prod.splits)

text \<open>
  Claim C7. For a stored package that deserialises and whose \<^verbatim>\<open>latest_version\<close> is a
  key of its \<^verbatim>\<open>versions\<close>, two calls of the route, with the tokens that
  \<^verbatim>\<open>random.choices\<close> draws in each, both answer 200 with documents that have the same
  fields in the same order and the same value in every field but \<^verbatim>\<open>_rev\<close>, which holds
  the token of the call.
\<close>

theorem projection_differs_in_rev_only:
  assumes "find_one coll (JStr pn) = Some doc"
      and "from_dict_NpmPackage doc = Inr package"
      and "map_of (versions package) (latest_version package) \<noteq> None"
  shows "\<exists>d1 d2.
     package_route coll pn token1 = Response 200 (JObj d1) \<and>
     package_route coll pn token2 = Response 200 (JObj d2) \<and>
     map fst d1 = map fst d2 \<and>
     (\<forall>f. f \<noteq> ''_rev'' \<longrightarrow> map_of d1 f = map_of d2 f) \<and>
     map_of d1 ''_rev'' = Some (JStr token1) \<and>
     map_of d2 ''_rev'' = Some (JStr token2)"
proof -
  from assms(3) obtain latest where
    latest: "map_of (versions package) (latest_version package) = Some latest"
    by blast
  show ?thesis
    unfolding package_route_found [OF assms(1) assms(2) latest]
    by simp
qed

theorem projection_differs_in_rev_only_witness:
  "\<exists>d1 d2.
     package_route [stored_foo (JStr ''abc'')] ''foo'' ''r1'' = Response 200 (JObj d1) \<and>
     package_route [stored_foo (JStr ''abc'')] ''foo'' ''r2'' = Response 200 (JObj d2) \<and>
     map fst d1 = map fst d2 \<and>
     map_of d1 ''name'' = map_of d2 ''name'' \<and>
     map_of d1 ''versions'' = map_of d2 ''versions'' \<and>
     map_of d1 ''_rev'' = Some (JStr ''r1'') \<and>
     map_of d2 ''_rev'' = Some (JStr ''r2'')"
proof -
  have "map_of (versions (\<lparr>name = ''foo'', latest_version = ''1.0.0'',
          versions = [(''1.0.0'',
            \<lparr>version_number = ''1.0.0'', description = ''d'', publish_date = ''2020'',
             dependencies = [(''bar'', ''^1.0.0'')], shasum = Some ''abc'', tarball = Some ''t'',
             author = Some ''ACME'', display_name = Some ''Foo'', unity = Some ''2021.3'',
             category = Some ''Tools'', hide_in_editor = False\<rparr>)]\<rparr> :: checked_package))
        (latest_version (\<lparr>name = ''foo'', latest_version = ''1.0.0'',
          versions = [(''1.0.0'',
            \<lparr>version_number = ''1.0.0'', description = ''d'', publish_date = ''2020'',
             dependencies = [(''bar'', ''^1.0.0'')], shasum = Some ''abc'', tarball = Some ''t'',
             author = Some ''ACME'', display_name = Some ''Foo'', unity = Some ''2021.3'',
             category = Some ''Tools'', hide_in_editor = False\<rparr>)]\<rparr> :: checked_package)) \<noteq> None"
    by simp
  from projection_differs_in_rev_only [OF find_stored_foo from_dict_stored_foo this,
      of "''r1''" "''r2''"]
  show ?thesis by fastforce
qed

text \<open>
  Claim C8, as the code has it. The route answers 404 when the store has no document of
  that name, and 500 when the document fails the type check of \<^verbatim>\<open>from_dict\<close>. For a
  document that deserialises, the route fails with the unhandled \<^verbatim>\<open>KeyError\<close> (status
  500) exactly when \<^verbatim>\<open>latest_version\<close> is not a key of \<^verbatim>\<open>versions\<close>, and answers 200
  exactly when it is a key; the top-level fields are then those of the version at that
  key, and of no other.
\<close>

theorem package_route_statuses:
  "(find_one coll (JStr pn) = None
      \<longrightarrow> package_route coll pn token = Response 404 (JObj [(''error'', JStr ''Not found'')])) \<and>
   (find_one coll (JStr pn) = Some doc \<and> from_dict_NpmPackage doc = Inl WrongTypeError
      \<longrightarrow> package_route coll pn token =
            Response 500 (JObj [(''err'', JStr ''Could not deserialise from database'')])) \<and>
   (find_one coll (JStr pn) = Some doc \<and> from_dict_NpmPackage doc = Inr package
      \<longrightarrow> (map_of (versions package) (latest_version package) = None
             \<longleftrightarrow> package_route coll pn token = Unhandled KeyError) \<and>
          (map_of (versions package) (latest_version package) = None
             \<longleftrightarrow> status_of (package_route coll pn token) = 500) \<and>
          (map_of (versions package) (latest_version package) \<noteq> None
             \<longleftrightarrow> (\<exists>d. package_route coll pn token = Response 200 (JObj d))) \<and>
          (\<forall>latest. map_of (versions package) (latest_version package) = Some latest
             \<longrightarrow> (\<exists>d. package_route coll pn token = Response 200 (JObj d) \<and>
                   map_of d ''dist-tags'' = Some (JObj [(''latest'', JStr (version_number latest))]) \<and>
                   map_of d ''description'' = Some (JStr (description latest)) \<and>
                   map_of d ''displayName'' = Some (opt_str (display_name latest)) \<and>
                   map_of d ''unity'' = Some (opt_str (unity latest)) \<and>
                   map_of d ''category'' = Some (opt_str (category latest)) \<and>
                   map_of d ''hideInEditor'' = Some (JBool (hide_in_editor latest)) \<and>
                   map_of d ''author'' = Some (opt_str (author latest)))))"
  by (auto simp: package_route_def split: prod.splits option.splits)


lemma from_dict_dangling_foo:
  "from_dict_NpmPackage dangling_foo =
     Inr \<lparr>name = ''foo'', latest_version = ''2.0.0'',
          versions = [(''1.0.0'',
            \<lparr>version_number = ''1.0.0'', description = ''d'', publish_date = ''2020'',
             dependencies = [(''bar'', ''^1.0.0'')], shasum = Some ''abc'', tarball = Some ''t'',
             author = Some ''ACME'', display_name = Some ''Foo'', unity = Some ''2021.3'',
             category = Some ''Tools'', hide_in_editor = False\<rparr>)]\<rparr>"
  by (simp add: from_dict_NpmPackage_def dangling_foo_def versions_field_def and_then_def
      str_field_def from_dict_stored_version)

theorem package_route_statuses_witness:
  "status_of (package_route [] ''foo'' ''r1'') = 404 \<and>
   package_route [stored_foo JNull] ''foo'' ''r1'' =
     Response 500 (JObj [(''err'', JStr ''Could not deserialise from database'')]) \<and>
   package_route [dangling_foo] ''foo'' ''r1'' = Unhandled KeyError \<and>
   status_of (package_route [dangling_foo] ''foo'' ''r1'') = 500 \<and>
   (\<exists>d. package_route [stored_foo (JStr ''abc'')] ''foo'' ''r1'' = Response 200 (JObj d) \<and>
        map_of d ''dist-tags'' = Some (JObj [(''latest'', JStr ''1.0.0'')]))"
proof -
  let ?v = "\<lparr>version_number = ''1.0.0'', description = ''d'', publish_date = ''2020'',
             dependencies = [(''bar'', ''^1.0.0'')], shasum = Some ''abc'', tarball = Some ''t'',
             author = Some ''ACME'', display_name = Some ''Foo'', unity = Some ''2021.3'',
             category = Some ''Tools'', hide_in_editor = False\<rparr> :: checked_version"
  let ?ok = "\<lparr>name = ''foo'', latest_version = ''1.0.0'', versions = [(''1.0.0'', ?v)]\<rparr>"
  let ?dangling = "\<lparr>name = ''foo'', latest_version = ''2.0.0'', versions = [(''1.0.0'', ?v)]\<rparr>"
  have none: "find_one [] (JStr ''foo'') = None"
    by (simp add: find_one_def matches_name_def)
  have dangling: "find_one [dangling_foo] (JStr ''foo'') = Some dangling_foo"
    by (simp add: find_one_def matches_name_def dangling_foo_def)
  note t1 = package_route_statuses [where coll = "[]" and pn = "''foo''" and token = "''r1''"]
  note t2 = package_route_statuses [where coll = "[stored_foo JNull]" and pn = "''foo''"
      and token = "''r1''" and doc = "stored_foo JNull"]
  note t3 = package_route_statuses [where coll = "[dangling_foo]" and pn = "''foo''"
      and token = "''r1''" and doc = dangling_foo and package = ?dangling]
  note t4 = package_route_statuses [where coll = "[stored_foo (JStr ''abc'')]" and pn = "''foo''"
      and token = "''r1''" and doc = "stored_foo (JStr ''abc'')" and package = ?ok]
  have a: "status_of (package_route [] ''foo'' ''r1'') = 404"
    using t1 none by simp
  have b: "package_route [stored_foo JNull] ''foo'' ''r1'' =
     Response 500 (JObj [(''err'', JStr ''Could not deserialise from database'')])"
    using t2 by (simp add: find_stored_foo from_dict_stored_foo_null)
  have c: "package_route [dangling_foo] ''foo'' ''r1'' = Unhandled KeyError \<and>
      status_of (package_route [dangling_foo] ''foo'' ''r1'') = 500"
    using t3 dangling by (simp add: from_dict_dangling_foo)
  have d: "\<exists>d. package_route [stored_foo (JStr ''abc'')] ''foo'' ''r1'' = Response 200 (JObj d) \<and>
        map_of d ''dist-tags'' = Some (JObj [(''latest'', JStr ''1.0.0'')])"
    using t4 by (simp add: find_stored_foo from_dict_stored_foo) blast
  from a b c d show ?thesis by simp
qed

text \<open>
  Claim C8 as stated fails for a record whose \<^verbatim>\<open>latest_version\<close> is a key of its
  \<^verbatim>\<open>versions\<close> but whose version has a \<^verbatim>\<open>shasum\<close> of \<^verbatim>\<open>null\<close>: the route answers 500.
\<close>

theorem undeserialisable_record_counterexample:
  "find_one [stored_foo JNull] (JStr ''foo'') = Some (stored_foo JNull) \<and>
   map_of (stored_foo JNull) ''latest_version'' = Some (JStr ''1.0.0'') \<and>
   map_of (stored_foo JNull) ''versions'' = Some (JObj [(''1.0.0'', JObj (stored_version JNull))]) \<and>
   package_route [stored_foo JNull] ''foo'' ''r1'' =
     Response 500 (JObj [(''err'', JStr ''Could not deserialise from database'')]) \<and>
   status_of (package_route [stored_foo JNull] ''foo'' ''r1'') = 500"
  by (simp add: package_route_def find_stored_foo from_dict_stored_foo_null)
    (simp add: stored_foo_def)

section \<open>The default of hide\_in\_editor\<close>

text \<open>
  From the feed to the route, one version at a time: the key of a version in the feed
  map is its version number; a version in the enriched map comes from a version of the
  feed map and the registry entry at its key; a version document of the stored package
  comes from a version of the enriched map; a version of the deserialised package comes
  from a version document; and a projected version comes from a version of the
  deserialised package.
\<close>

lemma set_update_subset: "set (AList.update k v al) \<subseteq> insert (k, v) (set al)"
  by (induction al) auto

lemma hash_key_KStr: "hash_key x = Inr (KStr s) \<Longrightarrow> x = JStr s"
  by (cases x) (auto split: if_splits)

lemma encode_Inr: "encode x = Inr y \<Longrightarrow> y = x"
  by (simp add: encode_def split: if_splits)

lemma feed_versions_keys:
  "feed_versions l acc = Inr out
   \<Longrightarrow> (\<And>k v. (k, v) \<in> set acc \<Longrightarrow> hash_key (version_number v) = Inr k)
   \<Longrightarrow> (k, v) \<in> set out \<Longrightarrow> hash_key (version_number v) = Inr k"
proof (induction l arbitrary: acc)
  case Nil
  then show ?case by simp
next
  case (Cons x l)
  from Cons.prems(1) obtain nv k0 where nv: "feed_version x = Inr nv"
    and k0: "hash_key (version_number nv) = Inr k0"
    and rest: "feed_versions l (AList.update k0 nv acc) = Inr out"
    by (auto split: sum.splits)
  have "\<And>k v. (k, v) \<in> set (AList.update k0 nv acc) \<Longrightarrow> hash_key (version_number v) = Inr k"
    using set_update_subset [of k0 nv acc] Cons.prems(2) k0 by auto
  from Cons.IH [OF rest this Cons.prems(3)] show ?case .
qed

lemma feed_download_keys:
  assumes "get_npm_versions_from_devops_feed up u w = (Inr (Got feed), w1)"
      and "(k, v) \<in> set feed"
  shows "hash_key (version_number v) = Inr k"
proof -
  from assms(1) obtain l where "feed_versions l [] = Inr feed"
    by (auto simp: get_npm_versions_from_devops_feed_def and_then_Inr_iff
        split: prod.splits sum.splits fetched.splits)
  from feed_versions_keys [OF this _ assms(2)] show ?thesis by simp
qed

lemma enrich_versions_members:
  "enrich_versions env_vars pn dvs pvs acc = Inr out \<Longrightarrow> (k, v') \<in> set out
   \<Longrightarrow> (k, v') \<in> set acc \<or>
       (\<exists>jv v0. (k, v0) \<in> set pvs \<and> py_get_key dvs k = Inr jv \<and> jv \<noteq> JNull \<and>
                enrich_version env_vars pn jv v0 = Inr v')"
proof (induction pvs arbitrary: acc)
  case Nil
  then show ?case by simp
next
  case (Cons kv pvs)
  obtain k0 v0 where kv: "kv = (k0, v0)" by (cases kv)
  from Cons.prems(1) kv obtain jv where jv: "py_get_key dvs k0 = Inr jv"
    by (cases "py_get_key dvs k0") auto
  show ?case
  proof (cases "jv = JNull")
    case True
    with Cons.prems(1) kv jv have "enrich_versions env_vars pn dvs pvs acc = Inr out" by simp
    from Cons.IH [OF this Cons.prems(2)] show ?thesis by auto
  next
    case False
    with Cons.prems(1) kv jv obtain v1 where
      v1: "enrich_version env_vars pn jv v0 = Inr v1" and
      rest: "enrich_versions env_vars pn dvs pvs (AList.update k0 v1 acc) = Inr out"
      by (cases "enrich_version env_vars pn jv v0") auto
    from Cons.IH [OF rest Cons.prems(2)] jv False v1 kv set_update_subset [of k0 v1 acc]
    show ?thesis by auto
  qed
qed

lemma asdict_versions_members:
  "asdict_versions out = Inr ds \<Longrightarrow> (s, vd) \<in> set ds
   \<Longrightarrow> \<exists>v. (KStr s, v) \<in> set out \<and> asdict_version v = Inr vd"
proof (induction out arbitrary: ds)
  case Nil
  then show ?case by simp
next
  case (Cons kv out)
  obtain k v where kv: "kv = (k, v)" by (cases kv)
  from Cons.prems(1) kv obtain s0 where k: "k = KStr s0"
    by (cases k) auto
  from Cons.prems(1) kv k obtain d r where d: "asdict_version v = Inr d"
    and r: "asdict_versions out = Inr r" and ds: "ds = (s0, d) # r"
    by (auto split: sum.splits)
  from Cons.prems(2) ds have "(s, vd) = (s0, d) \<or> (s, vd) \<in> set r" by simp
  then show ?case
  proof
    assume "(s, vd) = (s0, d)"
    with d kv k show ?thesis by auto
  next
    assume "(s, vd) \<in> set r"
    from Cons.IH [OF r this] show ?thesis by auto
  qed
qed

lemma asdict_version_fields:
  assumes "asdict_version v = Inr vd"
  shows "\<exists>d. vd = JObj d \<and> map_of d ''hide_in_editor'' = Some (hide_in_editor v) \<and>
           map_of d ''version_number'' = Some (version_number v)"
  using assms unfolding asdict_version_def and_then_Inr_iff
  by (auto dest!: encode_Inr)

lemma asdict_fields:
  assumes "asdict pkg = Inr doc"
  shows "\<exists>ds. asdict_versions (versions pkg) = Inr ds \<and>
           doc = [(''name'', name pkg), (''latest_version'', latest_version pkg),
                  (''versions'', JObj ds)]"
  using assms unfolding asdict_def and_then_Inr_iff
  by (auto dest!: encode_Inr)


lemma registry_download_Got:
  assumes "get_extra_npm_info_from_devops_npm_registry up env_vars pn pvs w = (Inr (Got out), w')"
  shows "\<exists>r j dvs.
      up (length (requests w)) (RegistryUrl (npm_registry_base_url env_vars) pn) = Returns r \<and>
      body r = Some j \<and> py_get j ''versions'' = Inr dvs \<and>
      enrich_versions env_vars pn dvs pvs [] = Inr out"
  using assms
  by (auto simp: get_extra_npm_info_from_devops_npm_registry_def get_from_devops_def Let_def
        json_of_def and_then_Inr_iff
      split: requests_result.splits if_splits sum.splits option.splits)

lemma validate_PASS:
  "validate_package_versions pv c = PASS \<Longrightarrow> \<exists>vs. pv = Got vs \<and> vs \<noteq> []"
  by (auto simp: validate_package_versions_def Let_def
      split: fetched.splits NetworkError.splits if_splits)

lemma upload_package_Next:
  assumes "upload_package pn lv out status w = (Next, w')"
  shows "\<exists>doc. asdict \<lparr>name = pn, latest_version = lv, versions = out\<rparr> = Inr doc \<and>
           requests w' = requests w \<and> packages w' \<noteq> [] \<and> last (packages w') = doc"
  using assms
  by (auto simp: upload_package_def Let_def insert_one_def split: sum.splits if_splits)

lemma process_package_stored:
  assumes step: "process_package up env_vars p c w = (Next, w')"
      and written: "packages w' \<noteq> packages w"
  shows "\<exists>pn lv u feed w1 r j dvs out doc.
      read_package_response p = Inr (pn, lv, u) \<and>
      get_npm_versions_from_devops_feed up u w = (Inr (Got feed), w1) \<and>
      up (Suc (length (requests w))) (RegistryUrl (npm_registry_base_url env_vars) pn)
        = Returns r \<and>
      body r = Some j \<and> py_get j ''versions'' = Inr dvs \<and>
      enrich_versions env_vars pn dvs feed [] = Inr out \<and> out \<noteq> [] \<and>
      asdict \<lparr>name = pn, latest_version = lv, versions = out\<rparr> = Inr doc \<and>
      last (packages w') = doc"
proof -
  from step obtain pn lv u where rd: "read_package_response p = Inr (pn, lv, u)"
    by (cases "read_package_response p") (auto simp: process_package_def)
  from step rd written obtain status where
    st: "check_package_status_in_mongo pn lv (packages w) = Inr status"
    and stale: "status \<noteq> UP_TO_DATE"
    by (cases "check_package_status_in_mongo pn lv (packages w)")
       (auto simp: process_package_def split: if_splits)
  obtain fr w1 where fd: "get_npm_versions_from_devops_feed up u w = (fr, w1)"
    by (cases "get_npm_versions_from_devops_feed up u w")
  have w1: "w1 = w\<lparr>requests := requests w @ [Url u]\<rparr>"
    using fd by (rule feed_world)
  from step rd st stale fd written w1 obtain pv where fr: "fr = Inr pv"
    by (cases fr) (auto simp: process_package_def)
  from step rd st stale fd fr written w1
  have pass: "validate_package_versions pv c = PASS"
    by (cases "validate_package_versions pv c") (auto simp: process_package_def)
  from validate_PASS [OF pass] obtain feed where feed: "pv = Got feed" "feed \<noteq> []"
    by blast
  from step rd st stale fd fr pass feed
  have eu: "enrich_and_upload up env_vars pn lv (Got feed) status c w1 = (Next, w')"
    by (simp add: process_package_def)
  obtain rr w2 where rg:
    "get_extra_npm_info_from_devops_npm_registry up env_vars pn feed w1 = (rr, w2)"
    by (cases "get_extra_npm_info_from_devops_npm_registry up env_vars pn feed w1")
  have w2: "w2 = w1\<lparr>requests := requests w1 @ [RegistryUrl (npm_registry_base_url env_vars) pn]\<rparr>"
    using rg by (rule registry_world)
  from eu rg written w1 w2 obtain pv' where rr: "rr = Inr pv'"
    by (cases rr) (auto simp: enrich_and_upload_def)
  from eu rg rr written w1 w2 have pass': "validate_package_versions pv' c = PASS"
    by (cases "validate_package_versions pv' c") (auto simp: enrich_and_upload_def)
  from validate_PASS [OF pass'] obtain out where out: "pv' = Got out" "out \<noteq> []"
    by blast
  from eu rg rr pass' out have up: "upload_package pn lv out status w2 = (Next, w')"
    by (simp add: enrich_and_upload_def)
  from upload_package_Next [OF up] obtain doc where
    doc: "asdict \<lparr>name = pn, latest_version = lv, versions = out\<rparr> = Inr doc"
    and last: "last (packages w') = doc"
    by blast
  from rg rr out have "get_extra_npm_info_from_devops_npm_registry up env_vars pn feed w1
      = (Inr (Got out), w2)"
    by simp
  from registry_download_Got [OF this] obtain r j dvs where
    "up (length (requests w1)) (RegistryUrl (npm_registry_base_url env_vars) pn) = Returns r"
    "body r = Some j" "py_get j ''versions'' = Inr dvs"
    "enrich_versions env_vars pn dvs feed [] = Inr out"
    by blast
  moreover have "length (requests w1) = Suc (length (requests w))"
    using w1 by simp
  ultimately show ?thesis
    using rd fd fr feed out doc last by auto
qed


lemma build_versions_members:
  "build_versions items = Inr built \<Longrightarrow> all_built built = Some vs \<Longrightarrow> (s, cv) \<in> set vs
   \<Longrightarrow> \<exists>d. (s, JObj d) \<in> set items \<and> from_dict_NpmPackageVersion d = Inr cv"
proof (induction items arbitrary: built vs)
  case Nil
  then show ?case by simp
next
  case (Cons kv items)
  obtain k x where kv: "kv = (k, x)" by (cases kv)
  from Cons.prems(1) kv obtain b0 rest where built: "built = (k, b0) # rest"
    and rest: "build_versions items = Inr rest"
    and b0: "b0 = None \<or> (\<exists>d. x = JObj d \<and> from_dict_NpmPackageVersion d = Inr (the b0))"
    by (cases x) (auto split: sum.splits)
  from Cons.prems(2) built obtain v0 vs' where v0: "b0 = Some v0"
    and vs': "all_built rest = Some vs'" and vs: "vs = (k, v0) # vs'"
    by (cases b0) auto
  from Cons.prems(3) vs have "(s, cv) = (k, v0) \<or> (s, cv) \<in> set vs'" by simp
  then show ?case
  proof
    assume "(s, cv) = (k, v0)"
    with b0 v0 kv show ?thesis by auto
  next
    assume "(s, cv) \<in> set vs'"
    from Cons.IH [OF rest vs' this] show ?thesis by auto
  qed
qed

lemma from_dict_NpmPackage_fields:
  assumes "from_dict_NpmPackage doc = Inr package"
      and "map_of doc ''versions'' = Some (JObj vdocs)"
  shows "map_of doc ''latest_version'' = Some (JStr (latest_version package)) \<and>
         (\<forall>s cv. (s, cv) \<in> set (versions package) \<longrightarrow>
            (\<exists>d. (s, JObj d) \<in> set vdocs \<and> from_dict_NpmPackageVersion d = Inr cv))"
proof -
  from assms obtain built where lv: "str_field doc ''latest_version'' = Inr (latest_version package)"
    and b: "build_versions vdocs = Inr built" and a: "all_built built = Some (versions package)"
    unfolding from_dict_NpmPackage_def and_then_Inr_iff
    by (auto simp: versions_field_def and_then_Inr_iff split: option.splits)
  from lv have "map_of doc ''latest_version'' = Some (JStr (latest_version package))"
    by (auto simp: str_field_def split: option.splits json.splits)
  with build_versions_members [OF b a] show ?thesis by blast
qed

lemma from_dict_version_fields:
  assumes "from_dict_NpmPackageVersion d = Inr cv"
  shows "str_field d ''version_number'' = Inr (version_number cv) \<and>
         bool_field_default_True d ''hide_in_editor'' = Inr (hide_in_editor cv)"
  using assms unfolding from_dict_NpmPackageVersion_def and_then_Inr_iff
  by auto

lemma version_loop_members:
  "version_loop n vs (tms, allv) = (tms', allv') \<Longrightarrow> (vn, pv) \<in> set allv'
   \<Longrightarrow> (vn, pv) \<in> set allv \<or>
       (\<exists>s cv. (s, cv) \<in> set vs \<and> vn = version_number cv \<and> pv = version_document n cv)"
proof (induction vs arbitrary: tms allv)
  case Nil
  then show ?case by simp
next
  case (Cons kv vs)
  obtain k version where kv: "kv = (k, version)" by (cases kv)
  from Cons.prems(1) kv have
    "version_loop n vs
       (AList.update (version_number version) (JStr (publish_date version)) tms,
        AList.update (version_number version) (version_document n version) allv)
     = (tms', allv')"
    by simp
  from Cons.IH [OF this Cons.prems(2)] kv
    set_update_subset [of "version_number version" "version_document n version" allv]
  show ?case by auto
qed


lemma py_or_False_JBool:
  "py_or hide (JBool False) = JBool b \<Longrightarrow> b \<longleftrightarrow> hide = JBool True"
  by (cases hide) (auto simp: py_or_def split: if_splits)

lemma stored_version_chain:
  assumes feedkeys: "\<forall>k v. (k, v) \<in> set feed \<longrightarrow> hash_key (version_number v) = Inr k"
      and en: "enrich_versions env_vars pn dvs feed [] = Inr out"
      and ad: "asdict_versions out = Inr ds"
      and mem: "(s, JObj d) \<in> set ds"
      and fd: "from_dict_NpmPackageVersion d = Inr cv"
  shows "\<exists>reg jv hide.
      dvs = JObj reg \<and> map_of reg s = Some jv \<and> py_get jv ''hideInEditor'' = Inr hide \<and>
      version_number cv = s \<and> (hide_in_editor cv \<longleftrightarrow> hide = JBool True)"
proof -
  from asdict_versions_members [OF ad mem] obtain v' where
    v': "(KStr s, v') \<in> set out" and dv: "asdict_version v' = Inr (JObj d)"
    by blast
  from enrich_versions_members [OF en v'] obtain jv v0 where
    v0: "(KStr s, v0) \<in> set feed" and jv: "py_get_key dvs (KStr s) = Inr jv" "jv \<noteq> JNull"
    and ev: "enrich_version env_vars pn jv v0 = Inr v'"
    by auto
  from jv obtain reg where reg: "dvs = JObj reg" "map_of reg s = Some jv"
    by (cases dvs) (auto split: option.splits)
  from enrich_version_fields [OF ev] obtain hide where
    hide: "py_get jv ''hideInEditor'' = Inr hide"
    and he: "hide_in_editor v' = py_or hide (JBool False)"
    and vn: "version_number v' = version_number v0"
    by blast
  from feedkeys v0 have "hash_key (version_number v0) = Inr (KStr s)"
    by blast
  then have "version_number v0 = JStr s"
    by (rule hash_key_KStr)
  with vn have vn': "version_number v' = JStr s" by simp
  from asdict_version_fields [OF dv] have
    dh: "map_of d ''hide_in_editor'' = Some (hide_in_editor v')"
    and dn: "map_of d ''version_number'' = Some (version_number v')"
    by auto
  from from_dict_version_fields [OF fd] dh dn vn' have
    "version_number cv = s" and "hide_in_editor v' = JBool (hide_in_editor cv)"
    by (auto simp: str_field_def bool_field_default_True_def split: json.splits)
  with he py_or_False_JBool [of hide "hide_in_editor cv"] reg hide show ?thesis
    by auto
qed

text \<open>
  A package that the loop body stores changes the store: after a check that answered
  \<open>NOT_FOUND\<close> the collection is longer, and after \<open>OUT_OF_DATE\<close> the document taken
  out differs from the one put in by its \<^verbatim>\<open>latest_version\<close>. So "the store has
  changed" says that the package was stored.
\<close>

lemma delete_one_found:
  "find_one coll n = Some d0
   \<Longrightarrow> 1 \<le> count_list coll d0 \<and> count_list (delete_one coll n) d0 = count_list coll d0 - 1"
  by (induction coll) (auto simp: find_one_def split: if_splits)

lemma stale_document_differs:
  assumes "check_package_status_in_mongo pn lv coll = Inr OUT_OF_DATE"
      and "asdict \<lparr>name = pn, latest_version = lv, versions = out\<rparr> = Inr doc"
  shows "\<exists>d0. find_one coll pn = Some d0 \<and> d0 \<noteq> doc"
proof -
  from assms(1) obtain d0 found where d0: "find_one coll pn = Some d0"
    and fd: "from_dict_NpmPackage d0 = Inr found"
    and ne: "JStr (latest_version found) \<noteq> lv"
    by (auto simp: check_package_status_in_mongo_def split: option.splits sum.splits if_splits)
  from fd have "str_field d0 ''latest_version'' = Inr (latest_version found)"
    unfolding from_dict_NpmPackage_def and_then_Inr_iff by auto
  then have "map_of d0 ''latest_version'' = Some (JStr (latest_version found))"
    by (auto simp: str_field_def split: option.splits json.splits)
  moreover from asdict_fields [OF assms(2)] have "map_of doc ''latest_version'' = Some lv"
    by auto
  ultimately have "d0 \<noteq> doc" using ne by auto
  with d0 show ?thesis by blast
qed

lemma upload_changes_store:
  assumes st: "check_package_status_in_mongo pn lv (packages w) = Inr status"
      and stale: "status \<noteq> UP_TO_DATE"
      and up: "upload_package pn lv out status w = (Next, w')"
  shows "packages w' \<noteq> packages w"
proof (cases "status = OUT_OF_DATE")
  case False
  with up have "length (packages w') = Suc (length (packages w))"
    by (auto simp: upload_package_def Let_def insert_one_def split: sum.splits)
  then show ?thesis by auto
next
  case True
  from up True obtain doc where
    doc: "asdict \<lparr>name = pn, latest_version = lv, versions = out\<rparr> = Inr doc"
    and w': "packages w' = delete_one (packages w) pn @ [doc]"
    by (auto simp: upload_package_def Let_def insert_one_def split: sum.splits)
  from stale_document_differs [OF st [unfolded True] doc] obtain d0 where
    d0: "find_one (packages w) pn = Some d0" and ne: "d0 \<noteq> doc"
    by blast
  from delete_one_found [OF d0] ne w'
  have "count_list (packages w') d0 < count_list (packages w) d0"
    by auto
  then show ?thesis by auto
qed

text \<open>
  Claim C10. A version document without the field \<^verbatim>\<open>hide_in_editor\<close>, when it
  deserialises, has \<^verbatim>\<open>hide_in_editor = True\<close>, the default of the dataclass. That default
  never shows in what a run writes: when the loop body stores a package, and the route
  then finds that stored document and answers 200, every projected version is a version
  of the registry document that the run downloaded, and its \<^verbatim>\<open>hideInEditor\<close> is true only
  if the registry's \<^verbatim>\<open>hideInEditor\<close> for that version is \<^verbatim>\<open>true\<close>, and false
  otherwise, also when the registry has none; likewise the \<^verbatim>\<open>hideInEditor\<close> at the top
  of the answer, for the latest version.
\<close>

theorem synced_hide_in_editor_is_upstream_or_false:
  assumes step: "process_package up env_vars p c w = (Next, w')"
      and written: "packages w' \<noteq> packages w"
      and found: "find_one coll (JStr n) = Some (last (packages w'))"
      and route: "package_route coll n token = Response 200 (JObj answer)"
  shows "(\<exists>pn lv u r j reg projected.
      read_package_response p = Inr (pn, lv, u) \<and>
      up (Suc (length (requests w))) (RegistryUrl (npm_registry_base_url env_vars) pn)
        = Returns r \<and>
      body r = Some j \<and> py_get j ''versions'' = Inr (JObj reg) \<and>
      map_of answer ''versions'' = Some (JObj projected) \<and>
      (\<forall>vn pv. (vn, pv) \<in> set projected \<longrightarrow>
         (\<exists>jv hide. map_of reg vn = Some jv \<and> py_get jv ''hideInEditor'' = Inr hide \<and>
            py_get pv ''hideInEditor'' = Inr (JBool (hide = JBool True)))) \<and>
      (\<exists>s jv hide. lv = JStr s \<and> map_of reg s = Some jv \<and>
         py_get jv ''hideInEditor'' = Inr hide \<and>
         map_of answer ''hideInEditor'' = Some (JBool (hide = JBool True)))) \<and>
    (map_of data ''hide_in_editor'' = None \<and> from_dict_NpmPackageVersion data = Inr dv
       \<longrightarrow> hide_in_editor dv = True)"
proof
  from process_package_stored [OF step written] obtain pn lv u feed w1 r j dvs out doc where
    rd: "read_package_response p = Inr (pn, lv, u)"
    and fd: "get_npm_versions_from_devops_feed up u w = (Inr (Got feed), w1)"
    and up: "up (Suc (length (requests w))) (RegistryUrl (npm_registry_base_url env_vars) pn)
        = Returns r"
    and bj: "body r = Some j" and dvs: "py_get j ''versions'' = Inr dvs"
    and en: "enrich_versions env_vars pn dvs feed [] = Inr out" and ne: "out \<noteq> []"
    and ad: "asdict \<lparr>name = pn, latest_version = lv, versions = out\<rparr> = Inr doc"
    and last: "last (packages w') = doc"
    by blast
  from asdict_fields [OF ad] obtain ds where
    ds: "asdict_versions out = Inr ds"
    and doc: "doc = [(''name'', pn), (''latest_version'', lv), (''versions'', JObj ds)]"
    by auto
  have feedkeys: "\<forall>k v. (k, v) \<in> set feed \<longrightarrow> hash_key (version_number v) = Inr k"
    using feed_download_keys [OF fd] by blast
  note chain = stored_version_chain [OF feedkeys en ds]
  from ne obtain k0 v0 where "(k0, v0) \<in> set out"
    by (cases out) auto
  from enrich_versions_members [OF en this] obtain jv0 where
    "py_get_key dvs k0 = Inr jv0" by auto
  then obtain reg where reg: "dvs = JObj reg"
    by (cases dvs) auto
  from found last have found': "find_one coll (JStr n) = Some doc" by simp
  from route found' obtain package latest where
    pk: "from_dict_NpmPackage doc = Inr package"
    and lt: "map_of (versions package) (latest_version package) = Some latest"
    by (auto simp: package_route_def split: sum.splits if_splits option.splits prod.splits)
  have dv: "map_of doc ''versions'' = Some (JObj ds)"
    using doc by simp
  from from_dict_NpmPackage_fields [OF pk dv] doc have
    lv: "lv = JStr (latest_version package)"
    and vs: "\<And>s cv. (s, cv) \<in> set (versions package)
        \<Longrightarrow> \<exists>d. (s, JObj d) \<in> set ds \<and> from_dict_NpmPackageVersion d = Inr cv"
    by auto
  have each: "\<exists>jv hide. map_of reg s = Some jv \<and> py_get jv ''hideInEditor'' = Inr hide \<and>
      version_number cv = s \<and> (hide_in_editor cv \<longleftrightarrow> hide = JBool True)"
    if "(s, cv) \<in> set (versions package)" for s cv
  proof -
    from vs [OF that] obtain d where "(s, JObj d) \<in> set ds"
      and "from_dict_NpmPackageVersion d = Inr cv"
      by blast
    from chain [OF this] reg show ?thesis by auto
  qed
  note answer = package_route_found [OF found' pk lt, of token]
  from route answer have
    av: "map_of answer ''versions'' = Some (JObj (snd (version_loop n (versions package) ([], []))))"
    and ah: "map_of answer ''hideInEditor'' = Some (JBool (hide_in_editor latest))"
    by auto
  have proj: "\<exists>jv hide. map_of reg vn = Some jv \<and> py_get jv ''hideInEditor'' = Inr hide \<and>
      py_get pv ''hideInEditor'' = Inr (JBool (hide = JBool True))"
    if "(vn, pv) \<in> set (snd (version_loop n (versions package) ([], [])))" for vn pv
  proof -
    obtain tms allv where vl: "version_loop n (versions package) ([], []) = (tms, allv)"
      by (cases "version_loop n (versions package) ([], [])")
    with that have "(vn, pv) \<in> set allv" by simp
    from version_loop_members [OF vl this] obtain s cv where
      m: "(s, cv) \<in> set (versions package)" and vn: "vn = version_number cv"
      and pv: "pv = version_document n cv"
      by auto
    from each [OF m] vn pv show ?thesis
      by (auto simp: version_document_def)
  qed
  from lt have "(latest_version package, latest) \<in> set (versions package)"
    by (rule map_of_SomeD)
  from each [OF this] ah lv have top:
    "\<exists>s jv hide. lv = JStr s \<and> map_of reg s = Some jv \<and>
         py_get jv ''hideInEditor'' = Inr hide \<and>
         map_of answer ''hideInEditor'' = Some (JBool (hide = JBool True))"
    by auto
  from rd up bj dvs reg av proj top
  show "\<exists>pn lv u r j reg projected.
      read_package_response p = Inr (pn, lv, u) \<and>
      up (Suc (length (requests w))) (RegistryUrl (npm_registry_base_url env_vars) pn)
        = Returns r \<and>
      body r = Some j \<and> py_get j ''versions'' = Inr (JObj reg) \<and>
      map_of answer ''versions'' = Some (JObj projected) \<and>
      (\<forall>vn pv. (vn, pv) \<in> set projected \<longrightarrow>
         (\<exists>jv hide. map_of reg vn = Some jv \<and> py_get jv ''hideInEditor'' = Inr hide \<and>
            py_get pv ''hideInEditor'' = Inr (JBool (hide = JBool True)))) \<and>
      (\<exists>s jv hide. lv = JStr s \<and> map_of reg s = Some jv \<and>
         py_get jv ''hideInEditor'' = Inr hide \<and>
         map_of answer ''hideInEditor'' = Some (JBool (hide = JBool True)))"
    by blast
next
  show "map_of data ''hide_in_editor'' = None \<and> from_dict_NpmPackageVersion data = Inr dv
       \<longrightarrow> hide_in_editor dv = True"
    using from_dict_version_fields [of data dv]
    by (auto simp: bool_field_default_True_def)
qed


theorem synced_hide_in_editor_is_upstream_or_false_witness:
  "(\<exists>w' answer.
      process_package (serves registry_versions) example_env (catalog_entry ''foo'') 0 empty_world
        = (Next, w') \<and>
      package_route (packages w') ''foo'' ''r1'' = Response 200 (JObj answer) \<and>
      map_of answer ''hideInEditor'' = Some (JBool False)) \<and>
   (\<exists>w' answer.
      process_package (serves authored_registry_versions) example_env (catalog_entry ''foo'') 0
        empty_world = (Next, w') \<and>
      package_route (packages w') ''foo'' ''r1'' = Response 200 (JObj answer) \<and>
      map_of answer ''hideInEditor'' = Some (JBool True)) \<and>
   (\<exists>cv. from_dict_NpmPackageVersion version_without_hide_in_editor = Inr cv \<and> hide_in_editor cv)"
proof -
  have part: "\<exists>w' answer.
      process_package (serves reg) example_env (catalog_entry ''foo'') 0 empty_world
        = (Next, w') \<and>
      package_route (packages w') ''foo'' ''r1'' = Response 200 (JObj answer) \<and>
      map_of answer ''hideInEditor'' = Some (JBool b)"
    if reg: "reg = [(''1.0.0'', jv)]" and hide: "py_get jv ''hideInEditor'' = Inr hide"
      and b: "b \<longleftrightarrow> hide = JBool True"
      and run: "\<exists>doc. process_package (serves reg) example_env (catalog_entry ''foo'') 0 empty_world =
         (Next, \<lparr>requests = [Url (JStr ''foo''), RegistryUrl ''https://registry'' (JStr ''foo'')],
                 packages = [doc]\<rparr>) \<and>
         find_one [doc] (JStr ''foo'') = Some doc \<and>
         (\<exists>answer. package_route [doc] ''foo'' ''r1'' = Response 200 (JObj answer))"
    for reg jv hide b
  proof -
    from run obtain doc answer where
      step: "process_package (serves reg) example_env (catalog_entry ''foo'') 0 empty_world =
         (Next, \<lparr>requests = [Url (JStr ''foo''), RegistryUrl ''https://registry'' (JStr ''foo'')],
                 packages = [doc]\<rparr>)"
      and found: "find_one [doc] (JStr ''foo'') = Some doc"
      and route: "package_route [doc] ''foo'' ''r1'' = Response 200 (JObj answer)"
      by blast
    let ?w' = "\<lparr>requests = [Url (JStr ''foo''), RegistryUrl ''https://registry'' (JStr ''foo'')],
                 packages = [doc]\<rparr>"
    have written: "packages ?w' \<noteq> packages empty_world"
      by (simp add: empty_world_def)
    have found': "find_one [doc] (JStr ''foo'') = Some (last (packages ?w'))"
      using found by simp
    from synced_hide_in_editor_is_upstream_or_false [OF step written found' route]
    have "map_of answer ''hideInEditor'' = Some (JBool b)"
      using reg hide b
      by (auto simp: read_catalog_entry serves_def ok_def empty_world_def)
    with step route show ?thesis
      by (intro exI [of _ ?w'] exI [of _ answer]) simp
  qed
  note defs = process_package_def read_catalog_entry check_package_status_in_mongo_def
    find_one_def matches_name_def empty_world_def serves_def ok_def feed_doc_def
    get_npm_versions_from_devops_feed_def get_from_devops_def json_of_def and_then_def
    feed_version_def py_or_def validate_package_versions_def enrich_and_upload_def
    get_extra_npm_info_from_devops_npm_registry_def example_env_def enrich_version_def
    upload_package_def asdict_def asdict_version_def encode_def insert_one_def
    package_route_def from_dict_NpmPackage_def str_field_def versions_field_def
    from_dict_NpmPackageVersion_def dict_str_str_field_def str_field_default_None_def
    bool_field_default_True_def
  let ?jv1 = "JObj [(''dist'', JObj [(''shasum'', JStr ''abc''), (''tarball'', JStr ''t'')])]"
  let ?jv2 = "JObj [(''dist'', JObj [(''shasum'', JStr ''abc''), (''tarball'', JStr ''t'')]),
                        (''author'', JObj [(''name'', JStr ''Ann'')]),
                        (''displayName'', JStr ''Foo''),
                        (''unity'', JStr ''2021.3''),
                        (''hideInEditor'', JBool True)]"
  have r1: "registry_versions = [(''1.0.0'', ?jv1)]"
    by (simp add: registry_versions_def)
  have r2: "authored_registry_versions = [(''1.0.0'', ?jv2)]"
    by (simp add: authored_registry_versions_def)
  have h1: "py_get ?jv1 ''hideInEditor'' = Inr JNull" by simp
  have h2: "py_get ?jv2 ''hideInEditor'' = Inr (JBool True)" by simp
  have run1: "\<exists>doc. process_package (serves registry_versions) example_env (catalog_entry ''foo'') 0
         empty_world =
         (Next, \<lparr>requests = [Url (JStr ''foo''), RegistryUrl ''https://registry'' (JStr ''foo'')],
                 packages = [doc]\<rparr>) \<and>
         find_one [doc] (JStr ''foo'') = Some doc \<and>
         (\<exists>answer. package_route [doc] ''foo'' ''r1'' = Response 200 (JObj answer))"
    by (simp add: defs registry_versions_def)
  have run2: "\<exists>doc. process_package (serves authored_registry_versions) example_env
         (catalog_entry ''foo'') 0 empty_world =
         (Next, \<lparr>requests = [Url (JStr ''foo''), RegistryUrl ''https://registry'' (JStr ''foo'')],
                 packages = [doc]\<rparr>) \<and>
         find_one [doc] (JStr ''foo'') = Some doc \<and>
         (\<exists>answer. package_route [doc] ''foo'' ''r1'' = Response 200 (JObj answer))"
    by (simp add: defs authored_registry_versions_def)
  have first: "\<exists>w' answer.
      process_package (serves registry_versions) example_env (catalog_entry ''foo'') 0 empty_world
        = (Next, w') \<and>
      package_route (packages w') ''foo'' ''r1'' = Response 200 (JObj answer) \<and>
      map_of answer ''hideInEditor'' = Some (JBool False)"
    using part [OF r1 h1 _ run1, of False] by simp
  have second: "\<exists>w' answer.
      process_package (serves authored_registry_versions) example_env (catalog_entry ''foo'') 0
        empty_world = (Next, w') \<and>
      package_route (packages w') ''foo'' ''r1'' = Response 200 (JObj answer) \<and>
      map_of answer ''hideInEditor'' = Some (JBool True)"
    using part [OF r2 h2 _ run2, of True] by simp
  have third: "\<exists>cv. from_dict_NpmPackageVersion version_without_hide_in_editor = Inr cv
      \<and> hide_in_editor cv"
    by (simp add: from_dict_NpmPackageVersion_def version_without_hide_in_editor_def and_then_def
        str_field_def str_field_default_None_def bool_field_default_True_def dict_str_str_field_def)
  from first second third show ?thesis by blast
qed


end
